theory Spec2Isabelle
  imports Complex_Main "HOL-Library.Word"
begin

section \<open>JavaScript strings\<close>

text \<open>
  A JavaScript string is a sequence of 16-bit UTF-16 code units. Titles, tokens, URLs and
  messages of the component are such strings; \<open>js\<close> writes an ASCII literal.
\<close>

type_synonym jsstring = "16 word list"

definition js :: "string \<Rightarrow> jsstring" where
  "js s = map (\<lambda>c. word_of_nat (of_char c)) s"

text \<open>
  The operator \<open>a || b\<close> on an optional string: \<open>undefined\<close>, \<open>null\<close> and the empty
  string are falsy, every other string is truthy.
\<close>

definition or_else :: "jsstring option \<Rightarrow> jsstring \<Rightarrow> jsstring" where
  "or_else a b = (case a of None \<Rightarrow> b | Some s \<Rightarrow> if s = [] then b else s)"

section \<open>Percent-encoding of URI components\<close>

text \<open>
  \<open>encodeURIComponent\<close> and \<open>decodeURIComponent\<close> are built-in functions of the language;
  they are modelled after the abstract operations \<open>Encode\<close> and \<open>Decode\<close> of ECMA-262
  (section 19.2.6). Both throw \<open>URIError\<close>, which is the \<open>Inl\<close> result here. Octets and
  code points are natural numbers, code units are read with \<open>unat\<close>.
\<close>

datatype URIError = URIError

definition isLeadingSurrogate :: "16 word \<Rightarrow> bool" where
  "isLeadingSurrogate c = (0xD800 \<le> unat c \<and> unat c \<le> 0xDBFF)"

definition isTrailingSurrogate :: "16 word \<Rightarrow> bool" where
  "isTrailingSurrogate c = (0xDC00 \<le> unat c \<and> unat c \<le> 0xDFFF)"

definition UTF16SurrogatePairToCodePoint :: "16 word \<Rightarrow> 16 word \<Rightarrow> nat" where
  "UTF16SurrogatePairToCodePoint lead trail =
     (unat lead - 0xD800) * 0x400 + (unat trail - 0xDC00) + 0x10000"

definition UTF16EncodeCodePoint :: "nat \<Rightarrow> jsstring" where
  "UTF16EncodeCodePoint cp =
     (if cp \<le> 0xFFFF then [word_of_nat cp]
      else [word_of_nat ((cp - 0x10000) div 0x400 + 0xD800),
            word_of_nat ((cp - 0x10000) mod 0x400 + 0xDC00)])"

text \<open>
  The characters \<open>encodeURIComponent\<close> leaves as they are: the ASCII letters and digits,
  the underscore and \<open>-.!~*'()\<close>.
\<close>

definition unescaped :: "16 word \<Rightarrow> bool" where
  "unescaped c =
     (let u = unat c in
      (0x41 \<le> u \<and> u \<le> 0x5A) \<or> (0x61 \<le> u \<and> u \<le> 0x7A) \<or> (0x30 \<le> u \<and> u \<le> 0x39) \<or>
      u = 0x5F \<or> u = 0x2D \<or> u = 0x2E \<or> u = 0x21 \<or> u = 0x7E \<or> u = 0x2A \<or> u = 0x27 \<or>
      u = 0x28 \<or> u = 0x29)"

text \<open>The UTF-8 transformation of a code point into one to four octets.\<close>

definition utf8_octets :: "nat \<Rightarrow> nat list" where
  "utf8_octets cp =
     (if cp < 0x80 then [cp]
      else if cp < 0x800 then [0xC0 + cp div 0x40, 0x80 + cp mod 0x40]
      else if cp < 0x10000 then
        [0xE0 + cp div 0x1000, 0x80 + cp div 0x40 mod 0x40, 0x80 + cp mod 0x40]
      else
        [0xF0 + cp div 0x40000, 0x80 + cp div 0x1000 mod 0x40, 0x80 + cp div 0x40 mod 0x40,
         0x80 + cp mod 0x40])"

definition hexDigit :: "nat \<Rightarrow> 16 word" where
  "hexDigit n = (if n < 10 then word_of_nat (0x30 + n) else word_of_nat (0x41 + (n - 10)))"

text \<open>One octet as \<open>%XX\<close>, two upper-case hexadecimal digits.\<close>

definition escapeOctet :: "nat \<Rightarrow> jsstring" where
  "escapeOctet b = [0x25, hexDigit (b div 16), hexDigit (b mod 16)]"

definition escapeCodePoint :: "nat \<Rightarrow> jsstring" where
  "escapeCodePoint cp = concat (map escapeOctet (utf8_octets cp))"

definition prepend :: "jsstring \<Rightarrow> URIError + jsstring \<Rightarrow> URIError + jsstring" where
  "prepend p r = (case r of Inl e \<Rightarrow> Inl e | Inr s \<Rightarrow> Inr (p @ s))"

text \<open>
  \<open>Encode\<close> walks the code units from left to right. An unescaped unit is copied; any
  other unit is read as a code point (\<open>CodePointAt\<close>: a leading surrogate followed by a
  trailing one is one code point of two units), an unpaired surrogate throws, and the
  code point's UTF-8 octets are escaped.
\<close>

fun Encode :: "jsstring \<Rightarrow> URIError + jsstring" where
  "Encode [] = Inr []"
| "Encode [c] =
     (if unescaped c then Inr [c]
      else if isLeadingSurrogate c \<or> isTrailingSurrogate c then Inl URIError
      else Inr (escapeCodePoint (unat c)))"
| "Encode (c # d # s) =
     (if unescaped c then prepend [c] (Encode (d # s))
      else if \<not> isLeadingSurrogate c \<and> \<not> isTrailingSurrogate c then
        prepend (escapeCodePoint (unat c)) (Encode (d # s))
      else if isTrailingSurrogate c then Inl URIError
      else if \<not> isTrailingSurrogate d then Inl URIError
      else prepend (escapeCodePoint (UTF16SurrogatePairToCodePoint c d)) (Encode s))"

definition encodeURIComponent :: "jsstring \<Rightarrow> URIError + jsstring" where
  "encodeURIComponent s = Encode s"

definition hexValue :: "16 word \<Rightarrow> nat option" where
  "hexValue c =
     (let u = unat c in
      if 0x30 \<le> u \<and> u \<le> 0x39 then Some (u - 0x30)
      else if 0x41 \<le> u \<and> u \<le> 0x46 then Some (u - 0x41 + 10)
      else if 0x61 \<le> u \<and> u \<le> 0x66 then Some (u - 0x61 + 10)
      else None)"

definition ParseHexOctet :: "16 word \<Rightarrow> 16 word \<Rightarrow> nat option" where
  "ParseHexOctet h1 h2 =
     (case hexValue h1 of None \<Rightarrow> None
      | Some a \<Rightarrow> (case hexValue h2 of None \<Rightarrow> None | Some b \<Rightarrow> Some (16 * a + b)))"

text \<open>The number of leading 1 bits of an octet.\<close>

definition leadingOnes :: "nat \<Rightarrow> nat" where
  "leadingOnes b =
     (if b < 0x80 then 0 else if b < 0xC0 then 1 else if b < 0xE0 then 2
      else if b < 0xF0 then 3 else if b < 0xF8 then 4 else 5)"

text \<open>
  The continuation octets of a multi-octet sequence: \<open>j\<close> further groups \<open>%XX\<close>. The
  result is the octets and the rest of the string, or \<open>None\<close> where \<open>Decode\<close> throws.
\<close>

fun continuationOctets :: "nat \<Rightarrow> jsstring \<Rightarrow> (nat list \<times> jsstring) option" where
  "continuationOctets 0 s = Some ([], s)"
| "continuationOctets (Suc j) (p # h1 # h2 # s) =
     (if p \<noteq> 0x25 then None
      else case ParseHexOctet h1 h2 of None \<Rightarrow> None
        | Some b \<Rightarrow>
            (case continuationOctets j s of None \<Rightarrow> None
             | Some (bs, r) \<Rightarrow> Some (b # bs, r)))"
| "continuationOctets (Suc j) s = None"

definition isContinuation :: "nat \<Rightarrow> bool" where
  "isContinuation b = (0x80 \<le> b \<and> b \<le> 0xBF)"

text \<open>
  The code point of a multi-octet UTF-8 sequence, \<open>None\<close> unless the sequence is valid:
  continuation octets of the form \<open>10xxxxxx\<close>, the shortest encoding, no surrogate, at most
  \<open>0x10FFFF\<close>.
\<close>

definition utf8_value :: "nat list \<Rightarrow> nat option" where
  "utf8_value octs =
     (case octs of
        [b0, b1] \<Rightarrow>
          (let v = (b0 - 0xC0) * 0x40 + (b1 - 0x80)
           in if isContinuation b1 \<and> 0x80 \<le> v then Some v else None)
      | [b0, b1, b2] \<Rightarrow>
          (let v = (b0 - 0xE0) * 0x1000 + (b1 - 0x80) * 0x40 + (b2 - 0x80)
           in if isContinuation b1 \<and> isContinuation b2 \<and> 0x800 \<le> v \<and>
                 \<not> (0xD800 \<le> v \<and> v \<le> 0xDFFF)
              then Some v else None)
      | [b0, b1, b2, b3] \<Rightarrow>
          (let v = (b0 - 0xF0) * 0x40000 + (b1 - 0x80) * 0x1000 + (b2 - 0x80) * 0x40 +
                   (b3 - 0x80)
           in if isContinuation b1 \<and> isContinuation b2 \<and> isContinuation b3 \<and>
                 0x10000 \<le> v \<and> v \<le> 0x10FFFF
              then Some v else None)
      | _ \<Rightarrow> None)"

text \<open>
  \<open>Decode\<close> with an empty set of preserved escapes: a unit other than \<open>%\<close> is copied; \<open>%XX\<close>
  with an octet below \<open>0x80\<close> is that character; a leading octet announces \<open>n - 1\<close>
  continuation groups, and the octets must be valid UTF-8.
\<close>

function Decode :: "jsstring \<Rightarrow> URIError + jsstring" where
  "Decode [] = Inr []"
| "Decode (c # s) =
     (if c \<noteq> 0x25 then prepend [c] (Decode s)
      else case s of
        h1 # h2 # s1 \<Rightarrow>
          (case ParseHexOctet h1 h2 of
             None \<Rightarrow> Inl URIError
           | Some B \<Rightarrow>
               if leadingOnes B = 0 then prepend [word_of_nat B] (Decode s1)
               else if leadingOnes B = 1 \<or> leadingOnes B > 4 then Inl URIError
               else (case continuationOctets (leadingOnes B - 1) s1 of
                       None \<Rightarrow> Inl URIError
                     | Some (octs, s2) \<Rightarrow>
                         (case utf8_value (B # octs) of
                            None \<Rightarrow> Inl URIError
                          | Some V \<Rightarrow> prepend (UTF16EncodeCodePoint V) (Decode s2))))
      | _ \<Rightarrow> Inl URIError)"
  by pat_completeness auto
termination
proof -
  have shorter: "continuationOctets j s = Some (bs, r) \<Longrightarrow> length r \<le> length s" for j s bs r
  proof (induction j s arbitrary: bs r rule: continuationOctets.induct)
    case (2 j p h1 h2 s)
    then show ?case
      by (fastforce split: if_splits option.splits)
  qed simp_all
  show ?thesis
  proof (relation "measure length", goal_cases)
    case (4 c s h1 t h2 s1 B p octs s2 V)
    then show ?case
      using shorter [of "leadingOnes B - 1" s1 octs s2] by simp
  qed simp_all
qed

definition decodeURIComponent :: "jsstring \<Rightarrow> URIError + jsstring" where
  "decodeURIComponent s = Decode s"

text \<open>
  \<open>String.prototype.trim\<close> removes white space and line terminators from both ends.
\<close>

definition isWhiteSpace :: "16 word \<Rightarrow> bool" where
  "isWhiteSpace c =
     (let u = unat c in
      (0x09 \<le> u \<and> u \<le> 0x0D) \<or> u = 0x20 \<or> u = 0xA0 \<or> u = 0x1680 \<or>
      (0x2000 \<le> u \<and> u \<le> 0x200A) \<or> u = 0x2028 \<or> u = 0x2029 \<or> u = 0x202F \<or>
      u = 0x205F \<or> u = 0x3000 \<or> u = 0xFEFF)"

definition trim :: "jsstring \<Rightarrow> jsstring" where
  "trim s = rev (dropWhile isWhiteSpace (rev (dropWhile isWhiteSpace s)))"

text \<open>
  \<open>String.prototype.isWellFormed\<close>: no surrogate code unit without its partner.
\<close>

fun isWellFormed :: "jsstring \<Rightarrow> bool" where
  "isWellFormed [] = True"
| "isWellFormed [c] = (\<not> isLeadingSurrogate c \<and> \<not> isTrailingSurrogate c)"
| "isWellFormed (c # d # s) =
     (if isLeadingSurrogate c then isTrailingSurrogate d \<and> isWellFormed s
      else \<not> isTrailingSurrogate c \<and> isWellFormed (d # s))"

section \<open>Data model\<close>

text \<open>The declared type \<open>ExportResponse\<close> of the upload endpoint's JSON reply.\<close>

record ExportResponse =
  ok :: bool
  path :: jsstring
  url :: jsstring
  requestId :: "jsstring option"
  bucket :: "jsstring option"
  size :: "real option"
  contentTypeOut :: "jsstring option"
  timings :: "real option option"
  error :: "jsstring option"

text \<open>
  The four \<open>useState\<close> cells of \<open>App\<close>: \<open>loading\<close>, \<open>errorMessage\<close>, \<open>resultInfo\<close> and
  \<open>title\<close>. \<open>null\<close> is \<open>None\<close>.
\<close>

record state =
  loading :: bool
  errorMessage :: "jsstring option"
  resultInfo :: "ExportResponse option"
  title :: jsstring

definition initial :: state where
  "initial = \<lparr>loading = False, errorMessage = None, resultInfo = None, title = []\<rparr>"

text \<open>
  The block that the conditional chain of the returned markup selects
  (\<open>loading ? ... : errorMessage ? ... : resultInfo?.ok ? ... : ...\<close>, the same chain in both
  versions). The code has one \<open>loading\<close> flag for the whole time a request is in flight, so
  the export and the upload stage are one phase \<open>InFlight\<close> here. \<open>phase_of\<close> is what a
  render shows when it reaches the \<open>return\<close>; what a render of each version does before
  that is \<open>render_1\<close> and \<open>render_2\<close> below.
\<close>

datatype phase = Idle | InFlight | Success | Failed

definition phase_of :: "state \<Rightarrow> phase" where
  "phase_of s =
     (if loading s then InFlight
      else if (case errorMessage s of None \<Rightarrow> False | Some m \<Rightarrow> m \<noteq> []) then Failed
      else if (case resultInfo s of None \<Rightarrow> False | Some r \<Rightarrow> ok r) then Success
      else Idle)"

section \<open>Collaborators\<close>

text \<open>
  A thrown value as \<open>catch\<close> reads it: \<open>error?.message\<close> (absent for a value that is not
  an \<open>Error\<close>) and \<open>String(error)\<close>.
\<close>

record thrown =
  message :: "jsstring option"
  stringOf :: jsstring

text \<open>
  What \<open>await\<close> makes of a promise: it resolves with a value, it rejects with a thrown
  value, or it never settles (the export dialog waits for the user without a timeout).
\<close>

datatype 'a promise = Resolved 'a | Rejected thrown | Pending

datatype ExportStatus = completed | aborted

datatype ExportBlob = ExportBlob (blob_url: jsstring)

text \<open>The result of the host's \<open>requestExport\<close>; the title is optional.\<close>

record ExportResult =
  status :: ExportStatus
  result_title :: "jsstring option"
  exportBlobs :: "ExportBlob list"

text \<open>
  The object given to \<open>JSON.stringify\<close> as the body of the upload request. A title that is
  \<open>undefined\<close> is left out of the JSON text.
\<close>

record ExportBody =
  body_title :: "jsstring option"
  files :: "ExportBlob list"
  designToken :: jsstring

record Request =
  request_url :: jsstring
  request_method :: jsstring
  contentType :: jsstring
  authorization :: jsstring
  body :: ExportBody

text \<open>
  The \<open>Response\<close> of \<open>fetch\<close>: its status and what \<open>resp.json()\<close> gives. \<open>resp.ok\<close> is true
  for a status from 200 to 299. A parsed body \<open>null\<close> is \<open>None\<close>; any other body is read at
  its declared type.
\<close>

record Response =
  http_status :: nat
  json :: "ExportResponse option promise"

definition resp_ok :: "Response \<Rightarrow> bool" where
  "resp_ok resp = (200 \<le> http_status resp \<and> http_status resp \<le> 299)"

text \<open>
  The collaborators of one run of the handler. Each is called at most once in a run, so
  its behaviour in the run is the outcome of that call. \<open>requestOpenExternalUrl\<close> may
  throw at the call (\<open>Inl\<close>) or return a promise.
\<close>

record env =
  requestExport :: "ExportResult promise"
  getCanvaUserToken :: "jsstring promise"
  getDesignToken :: "jsstring promise"
  fetch :: "Response promise"
  requestOpenExternalUrl :: "thrown + unit promise"

text \<open>What a run does to the outside, in order.\<close>

datatype event =
    Fetch Request
  | OpenExternalUrl jsstring
  | ConsoleInfo "ExportResponse option" nat
  | ConsoleError jsstring
  | UnhandledRejection thrown

text \<open>
  How a block ends: normally, by \<open>return\<close>, by an exception, or not at all (an awaited
  promise never settles).
\<close>

datatype completion = Normal | Returned | Threw thrown | Hung

record run =
  outcome :: completion
  final :: state
  events :: "event list"

definition await :: "'a promise \<Rightarrow> state \<Rightarrow> event list \<Rightarrow> ('a \<Rightarrow> run) \<Rightarrow> run" where
  "await p s tr k =
     (case p of
        Resolved v \<Rightarrow> k v
      | Rejected e \<Rightarrow> \<lparr>outcome = Threw e, final = s, events = tr\<rparr>
      | Pending \<Rightarrow> \<lparr>outcome = Hung, final = s, events = tr\<rparr>)"

section \<open>The preview URL\<close>

definition API_BASE :: jsstring where
  "API_BASE = js ''https://admin.levebrasa.com''"

definition modelo :: jsstring where
  "modelo = js ''2 Canecas Padr'' @ [0xE3] @ js ''o''"

definition cor :: jsstring where
  "cor = js ''Branca''"

text \<open>
  The expression both versions return: the base, then the three parameters, each encoded
  on its own, from left to right. A \<open>URIError\<close> of an encoding is the result.
\<close>

definition mockupTemplate :: "jsstring \<Rightarrow> URIError + jsstring" where
  "mockupTemplate finalTitle =
     (case encodeURIComponent modelo of Inl e \<Rightarrow> Inl e
      | Inr m \<Rightarrow>
          (case encodeURIComponent finalTitle of Inl e \<Rightarrow> Inl e
           | Inr a \<Rightarrow>
               (case encodeURIComponent cor of Inl e \<Rightarrow> Inl e
                | Inr c \<Rightarrow>
                    Inr (js ''https://admin.levebrasa.com/internal/mockup'' @
                         js ''?modelo='' @ m @ js ''&arte='' @ a @ js ''&cor='' @ c))))"

text \<open>
  First version: \<open>mockupUrl(titleParam?)\<close> encodes \<open>titleParam || title || "arte"\<close>
  (\<open>mockupTitle\<close>). The first argument is the \<open>title\<close> state the closure holds.
\<close>

definition mockupTitle :: "jsstring \<Rightarrow> jsstring option \<Rightarrow> jsstring" where
  "mockupTitle title0 titleParam = or_else titleParam (or_else (Some title0) (js ''arte''))"

definition mockupUrl :: "jsstring \<Rightarrow> jsstring option \<Rightarrow> URIError + jsstring" where
  "mockupUrl title0 titleParam = mockupTemplate (mockupTitle title0 titleParam)"

text \<open>
  Second version: \<open>buildMockupUrl(artTitle?)\<close> encodes
  \<open>finalTitle = (artTitle && artTitle.trim()) || title || "arte"\<close>.
\<close>

definition finalTitle :: "jsstring \<Rightarrow> jsstring option \<Rightarrow> jsstring" where
  "finalTitle title0 artTitle =
     or_else (map_option trim artTitle) (or_else (Some title0) (js ''arte''))"

definition buildMockupUrl :: "jsstring \<Rightarrow> jsstring option \<Rightarrow> URIError + jsstring" where
  "buildMockupUrl title0 artTitle = mockupTemplate (finalTitle title0 artTitle)"

section \<open>Reading a query parameter back\<close>

text \<open>
  How a reader of the preview URL finds a parameter: the query is what follows the first
  \<open>?\<close>, its fields are separated by \<open>&\<close>, a field is \<open>name=value\<close>, and the value is
  decoded with \<open>decodeURIComponent\<close>. \<open>queryParam\<close> is the raw value of the first field of
  that name, \<open>decodedParam\<close> its decoding (\<open>None\<close> when there is no such field or the
  decoding throws).
\<close>

definition queryString :: "jsstring \<Rightarrow> jsstring" where
  "queryString u = drop 1 (dropWhile (\<lambda>c. c \<noteq> 0x3F) u)"

fun splitOn :: "16 word \<Rightarrow> jsstring \<Rightarrow> jsstring list" where
  "splitOn sep [] = [[]]"
| "splitOn sep (c # s) =
     (if c = sep then [] # splitOn sep s
      else (case splitOn sep s of [] \<Rightarrow> [[c]] | x # xs \<Rightarrow> (c # x) # xs))"

definition queryParam :: "jsstring \<Rightarrow> jsstring \<Rightarrow> jsstring option" where
  "queryParam name u =
     (case filter (\<lambda>seg. takeWhile (\<lambda>c. c \<noteq> 0x3D) seg = name) (splitOn 0x26 (queryString u)) of
        [] \<Rightarrow> None
      | seg # _ \<Rightarrow> Some (drop 1 (dropWhile (\<lambda>c. c \<noteq> 0x3D) seg)))"

definition decodedParam :: "jsstring \<Rightarrow> jsstring \<Rightarrow> jsstring option" where
  "decodedParam name u =
     (case queryParam name u of
        None \<Rightarrow> None
      | Some v \<Rightarrow> (case decodeURIComponent v of Inl _ \<Rightarrow> None | Inr s \<Rightarrow> Some s))"

section \<open>The start transition\<close>

definition json_ok :: "ExportResponse option \<Rightarrow> bool" where
  "json_ok j = (case j of None \<Rightarrow> False | Some r \<Rightarrow> ok r)"

definition json_error :: "ExportResponse option \<Rightarrow> jsstring option" where
  "json_error j = (case j of None \<Rightarrow> None | Some r \<Rightarrow> error r)"

definition exportRequest :: "ExportResult \<Rightarrow> jsstring \<Rightarrow> jsstring \<Rightarrow> Request" where
  "exportRequest result userToken dToken =
     \<lparr>request_url = API_BASE @ js ''/api/canva/export'',
      request_method = js ''POST'',
      contentType = js ''application/json'',
      authorization = js ''Bearer '' @ userToken,
      body = \<lparr>body_title = result_title result, files = exportBlobs result,
              designToken = dToken\<rparr>\<rparr>"

text \<open>
  The \<open>try\<close> block of \<open>handleExportAndSend\<close>, first version. \<open>title0\<close> is the \<open>title\<close> state
  of the render that created the handler: \<open>setTitle\<close> changes the state of the next
  render, not the value the running closure reads. \<open>requestOpenExternalUrl\<close> is called
  without \<open>await\<close>, so the inner \<open>catch\<close> sees only what the call itself throws (and a
  \<open>URIError\<close> of \<open>mockupUrl\<close>); a rejected promise is left unhandled.
\<close>

definition tryBlock_1 :: "env \<Rightarrow> jsstring \<Rightarrow> state \<Rightarrow> run" where
  "tryBlock_1 e title0 s1 =
     await (requestExport e) s1 [] (\<lambda>result.
       if status result \<noteq> completed
       then \<lparr>outcome = Returned, final = s1\<lparr>loading := False\<rparr>, events = []\<rparr>
       else
         let s2 = s1\<lparr>title := or_else (result_title result) (js ''arte'')\<rparr> in
         await (getCanvaUserToken e) s2 [] (\<lambda>userToken.
         await (getDesignToken e) s2 [] (\<lambda>dToken.
           let req = exportRequest result userToken dToken in
           await (fetch e) s2 [Fetch req] (\<lambda>resp.
           await (json resp) s2 [Fetch req] (\<lambda>j.
             let s3 = s2\<lparr>resultInfo := j\<rparr>;
                 tr = [Fetch req, ConsoleInfo j (http_status resp)]
             in
             if resp_ok resp \<and> json_ok j then
               (case mockupUrl title0 (result_title result) of
                  Inl _ \<Rightarrow> \<lparr>outcome = Normal, final = s3, events = tr\<rparr>
                | Inr u \<Rightarrow>
                    (case requestOpenExternalUrl e of
                       Inr (Rejected x) \<Rightarrow>
                         \<lparr>outcome = Normal, final = s3,
                          events = tr @ [OpenExternalUrl u, UnhandledRejection x]\<rparr>
                     | _ \<Rightarrow>
                         \<lparr>outcome = Normal, final = s3,
                          events = tr @ [OpenExternalUrl u]\<rparr>))
             else
               \<lparr>outcome = Normal,
                final = s3\<lparr>errorMessage :=
                  Some (or_else (json_error j) (js ''Falha ao enviar a arte.''))\<rparr>,
                events = tr\<rparr>)))))"

text \<open>
  \<open>handleExportAndSend\<close>, first version: the three writes before \<open>try\<close>, the \<open>try\<close> block,
  \<open>catch\<close> (sets the message and logs it) and \<open>finally\<close> (clears \<open>loading\<close>). A run that
  waits forever reaches neither \<open>catch\<close> nor \<open>finally\<close>.
\<close>

definition handleExportAndSend_1 :: "env \<Rightarrow> state \<Rightarrow> run" where
  "handleExportAndSend_1 e st =
     (let s1 = st\<lparr>errorMessage := None, resultInfo := None, loading := True\<rparr>;
          r = tryBlock_1 e (title st) s1
      in case outcome r of
           Hung \<Rightarrow> r
         | Threw x \<Rightarrow>
             \<lparr>outcome = Normal,
              final = (final r)\<lparr>errorMessage :=
                        Some (or_else (message x) (js ''Erro inesperado.'')),
                      loading := False\<rparr>,
              events = events r @ [ConsoleError (or_else (message x) (stringOf x))]\<rparr>
         | _ \<Rightarrow> r\<lparr>final := (final r)\<lparr>loading := False\<rparr>\<rparr>)"

text \<open>
  The \<open>try\<close> block of the second version: no logging, \<open>buildMockupUrl\<close> for the preview
  URL, and \<open>requestOpenExternalUrl\<close> is awaited inside the inner \<open>try\<close>, so a rejection
  is swallowed too and a promise that never settles keeps the run waiting.
\<close>

definition tryBlock_2 :: "env \<Rightarrow> jsstring \<Rightarrow> state \<Rightarrow> run" where
  "tryBlock_2 e title0 s1 =
     await (requestExport e) s1 [] (\<lambda>result.
       if status result \<noteq> completed
       then \<lparr>outcome = Returned, final = s1\<lparr>loading := False\<rparr>, events = []\<rparr>
       else
         let s2 = s1\<lparr>title := or_else (result_title result) (js ''arte'')\<rparr> in
         await (getCanvaUserToken e) s2 [] (\<lambda>userToken.
         await (getDesignToken e) s2 [] (\<lambda>dToken.
           let req = exportRequest result userToken dToken in
           await (fetch e) s2 [Fetch req] (\<lambda>resp.
           await (json resp) s2 [Fetch req] (\<lambda>j.
             let s3 = s2\<lparr>resultInfo := j\<rparr> in
             if resp_ok resp \<and> json_ok j then
               (case buildMockupUrl title0 (result_title result) of
                  Inl _ \<Rightarrow> \<lparr>outcome = Normal, final = s3, events = [Fetch req]\<rparr>
                | Inr u \<Rightarrow>
                    (case requestOpenExternalUrl e of
                       Inr Pending \<Rightarrow>
                         \<lparr>outcome = Hung, final = s3,
                          events = [Fetch req, OpenExternalUrl u]\<rparr>
                     | _ \<Rightarrow>
                         \<lparr>outcome = Normal, final = s3,
                          events = [Fetch req, OpenExternalUrl u]\<rparr>))
             else
               \<lparr>outcome = Normal,
                final = s3\<lparr>errorMessage :=
                  Some (or_else (json_error j) (js ''Falha ao enviar a arte.''))\<rparr>,
                events = [Fetch req]\<rparr>)))))"

definition handleExportAndSend_2 :: "env \<Rightarrow> state \<Rightarrow> run" where
  "handleExportAndSend_2 e st =
     (let s1 = st\<lparr>errorMessage := None, resultInfo := None, loading := True\<rparr>;
          r = tryBlock_2 e (title st) s1
      in case outcome r of
           Hung \<Rightarrow> r
         | Threw x \<Rightarrow>
             \<lparr>outcome = Normal,
              final = (final r)\<lparr>errorMessage :=
                        Some (or_else (message x) (js ''Erro inesperado.'')),
                      loading := False\<rparr>,
              events = events r\<rparr>
         | _ \<Rightarrow> r\<lparr>final := (final r)\<lparr>loading := False\<rparr>\<rparr>)"

section \<open>The render\<close>

text \<open>
  A render of the component, as the phase it shows or the exception it throws. In the
  first version nothing before the \<open>return\<close> can throw: \<open>mockupUrl\<close> is only called from
  the handler and from a click, inside \<open>try\<close>. The second version evaluates
  \<open>useMemo(() => buildMockupUrl(), [title, modelo, cor])\<close> in every render, outside any
  \<open>try\<close>: when the \<open>title\<close> state cannot be encoded, the render throws \<open>URIError\<close> and
  the component shows nothing.
\<close>

definition render_1 :: "state \<Rightarrow> URIError + phase" where
  "render_1 s = Inr (phase_of s)"

definition render_2 :: "state \<Rightarrow> URIError + phase" where
  "render_2 s =
     (case buildMockupUrl (title s) None of Inl x \<Rightarrow> Inl x | Inr _ \<Rightarrow> Inr (phase_of s))"

section \<open>The reset transition\<close>

text \<open>
  \<open>reset\<close> (the same body in both versions of the component): \<open>setErrorMessage(null);
  setResultInfo(null); setTitle("")\<close>. It does not write \<open>loading\<close>.
\<close>

definition reset :: "state \<Rightarrow> state" where
  "reset s = s\<lparr>errorMessage := None, resultInfo := None, title := []\<rparr>"

section \<open>Example inputs\<close>

text \<open>
  The end-to-end example: an export whose title is \<open>Logo Ver\<close>, the letter U+00E3 and
  \<open>o\<close>; both tokens; a reply \<open>{ok: true, path: "x", url: "y", size: 204800, ...}\<close> with
  status 200.
\<close>

definition exampleUpload :: ExportResponse where
  "exampleUpload =
     \<lparr>ok = True, path = js ''x'', url = js ''y'', requestId = None, bucket = None,
      size = Some 204800, contentTypeOut = Some (js ''image/png''),
      timings = Some (Some 1200), error = None\<rparr>"

definition exampleResult :: ExportResult where
  "exampleResult =
     \<lparr>status = completed, result_title = Some (js ''Logo Ver'' @ [0xE3] @ js ''o''),
      exportBlobs = [ExportBlob (js ''blob:1'')]\<rparr>"

definition exampleEnv :: env where
  "exampleEnv =
     \<lparr>requestExport = Resolved exampleResult,
      getCanvaUserToken = Resolved (js ''user-token''),
      getDesignToken = Resolved (js ''design-token''),
      fetch = Resolved \<lparr>http_status = 200, json = Resolved (Some exampleUpload)\<rparr>,
      requestOpenExternalUrl = Inr (Resolved ())\<rparr>"

definition cancelledEnv :: env where
  "cancelledEnv = exampleEnv\<lparr>requestExport := Resolved (exampleResult\<lparr>status := aborted\<rparr>)\<rparr>"

section \<open>Observations and further example inputs\<close>

text \<open>
  The upload requests, the preview URLs and the rejections left unhandled in a run, read
  off its events in order.
\<close>

fun fetchRequests :: "event list \<Rightarrow> Request list" where
  "fetchRequests [] = []"
| "fetchRequests (Fetch req # evs) = req # fetchRequests evs"
| "fetchRequests (_ # evs) = fetchRequests evs"

fun openedUrls :: "event list \<Rightarrow> jsstring list" where
  "openedUrls [] = []"
| "openedUrls (OpenExternalUrl u # evs) = u # openedUrls evs"
| "openedUrls (_ # evs) = openedUrls evs"

fun unhandledRejections :: "event list \<Rightarrow> thrown list" where
  "unhandledRejections [] = []"
| "unhandledRejections (UnhandledRejection x # evs) = x # unhandledRejections evs"
| "unhandledRejections (_ # evs) = unhandledRejections evs"

definition rejectedStatusEnv :: env where
  "rejectedStatusEnv =
     exampleEnv\<lparr>fetch := Resolved \<lparr>http_status = 500, json = Resolved (Some exampleUpload)\<rparr>\<rparr>"

definition untitledEnv :: env where
  "untitledEnv = exampleEnv\<lparr>requestExport := Resolved (exampleResult\<lparr>result_title := None\<rparr>)\<rparr>"

definition emptyErrorEnv :: env where
  "emptyErrorEnv =
     exampleEnv\<lparr>fetch := Resolved \<lparr>http_status = 200,
       json = Resolved (Some (exampleUpload\<lparr>ok := False, error := Some []\<rparr>))\<rparr>\<rparr>"

definition boom :: thrown where
  "boom = \<lparr>message = Some (js ''Failed to fetch''), stringOf = js ''TypeError: Failed to fetch''\<rparr>"

definition blockedPreviewEnv :: env where
  "blockedPreviewEnv = exampleEnv\<lparr>requestOpenExternalUrl := Inl boom\<rparr>"

definition offlineEnv :: env where
  "offlineEnv = exampleEnv\<lparr>fetch := Rejected boom\<rparr>"

definition invalidFile :: jsstring where
  "invalidFile = js ''arquivo inv'' @ [0xE1] @ js ''lido''"

definition declinedEnv :: env where
  "declinedEnv =
     exampleEnv\<lparr>fetch := Resolved \<lparr>http_status = 200,
       json = Resolved (Some (exampleUpload\<lparr>ok := False, error := Some invalidFile\<rparr>))\<rparr>\<rparr>"

text \<open>
  Titles with white space at the ends, separators and a letter outside ASCII; a session
  that failed once with an export named \<open>Old\<close> and is retried; an export whose title
  starts with a space.
\<close>

definition exampleTitle :: jsstring where
  "exampleTitle = js '' Logo & Ver'' @ [0xE3] @ js ''o=1 ''"

definition exampleTrimmed :: jsstring where
  "exampleTrimmed = js ''Logo & Ver'' @ [0xE3] @ js ''o=1''"

definition loggedTitle :: jsstring where
  "loggedTitle = js ''Logo Ver'' @ [0xE3] @ js ''o''"

definition oldDeclinedEnv :: env where
  "oldDeclinedEnv =
     declinedEnv\<lparr>requestExport := Resolved (exampleResult\<lparr>result_title := Some (js ''Old'')\<rparr>)\<rparr>"

definition retryState :: state where
  "retryState = final (handleExportAndSend_2 oldDeclinedEnv initial)"

definition paddedEnv :: env where
  "paddedEnv =
     exampleEnv\<lparr>requestExport := Resolved (exampleResult\<lparr>result_title := Some (js '' Logo'')\<rparr>)\<rparr>"

text \<open>
  A preview call that never settles, and exports whose title is \<open>&\<close> followed by the
  unpaired surrogate U+D800: one with the upload accepted, one with it declined.
\<close>

definition hangingPreviewEnv :: env where
  "hangingPreviewEnv = exampleEnv\<lparr>requestOpenExternalUrl := Inr Pending\<rparr>"

definition surrogateEnv :: env where
  "surrogateEnv =
     exampleEnv\<lparr>requestExport := Resolved (exampleResult\<lparr>result_title := Some [0x26, 0xD800]\<rparr>)\<rparr>"

definition surrogateDeclinedEnv :: env where
  "surrogateDeclinedEnv =
     declinedEnv\<lparr>requestExport := Resolved (exampleResult\<lparr>result_title := Some [0x26, 0xD800]\<rparr>)\<rparr>"

text \<open>
  The exception the \<open>try\<close> block raises before the reply is read, if any: the first
  rejection among the awaited calls, in the order the block awaits them.
\<close>

definition rejection :: "env \<Rightarrow> thrown option" where
  "rejection e =
     (case requestExport e of
        Rejected x \<Rightarrow> Some x
      | Pending \<Rightarrow> None
      | Resolved r \<Rightarrow>
          if status r \<noteq> completed then None
          else (case getCanvaUserToken e of
                  Rejected x \<Rightarrow> Some x
                | Pending \<Rightarrow> None
                | Resolved _ \<Rightarrow>
                    (case getDesignToken e of
                       Rejected x \<Rightarrow> Some x
                     | Pending \<Rightarrow> None
                     | Resolved _ \<Rightarrow>
                         (case fetch e of
                            Rejected x \<Rightarrow> Some x
                          | Pending \<Rightarrow> None
                          | Resolved resp \<Rightarrow>
                              (case json resp of Rejected x \<Rightarrow> Some x | _ \<Rightarrow> None)))))"

section \<open>Paths through the try block\<close>

lemma tryBlock_1_cancelled:
  assumes "requestExport e = Resolved r" and "status r \<noteq> completed"
  shows "tryBlock_1 e t0 s1 =
           \<lparr>outcome = Returned, final = s1\<lparr>loading := False\<rparr>, events = []\<rparr>"
  using assms by (simp add: tryBlock_1_def await_def)

lemma tryBlock_2_cancelled:
  assumes "requestExport e = Resolved r" and "status r \<noteq> completed"
  shows "tryBlock_2 e t0 s1 =
           \<lparr>outcome = Returned, final = s1\<lparr>loading := False\<rparr>, events = []\<rparr>"
  using assms by (simp add: tryBlock_2_def await_def)

lemma cancelledEnv_export:
  "requestExport cancelledEnv = Resolved (exampleResult\<lparr>status := aborted\<rparr>)"
  "status (exampleResult\<lparr>status := aborted\<rparr>) \<noteq> completed"
  by (simp_all add: cancelledEnv_def)

lemma or_else_nonempty: "b \<noteq> [] \<Longrightarrow> or_else a b \<noteq> []"
  by (simp add: or_else_def split: option.splits)

lemma fallbacks_nonempty:
  "js ''Falha ao enviar a arte.'' \<noteq> []" "js ''Erro inesperado.'' \<noteq> []" "js ''arte'' \<noteq> []"
  by (simp_all add: js_def)

lemma tryBlock_1_reply:
  assumes "requestExport e = Resolved r" and "status r = completed"
    and "getCanvaUserToken e = Resolved ut" and "getDesignToken e = Resolved dt"
    and "fetch e = Resolved resp" and "json resp = Resolved j"
  shows "tryBlock_1 e t0 s1 =
    (let s3 = s1\<lparr>title := or_else (result_title r) (js ''arte''), resultInfo := j\<rparr>;
         tr = [Fetch (exportRequest r ut dt), ConsoleInfo j (http_status resp)] in
     if resp_ok resp \<and> json_ok j then
       (case mockupUrl t0 (result_title r) of
          Inl _ \<Rightarrow> \<lparr>outcome = Normal, final = s3, events = tr\<rparr>
        | Inr u \<Rightarrow>
            (case requestOpenExternalUrl e of
               Inr (Rejected x) \<Rightarrow>
                 \<lparr>outcome = Normal, final = s3,
                  events = tr @ [OpenExternalUrl u, UnhandledRejection x]\<rparr>
             | _ \<Rightarrow> \<lparr>outcome = Normal, final = s3, events = tr @ [OpenExternalUrl u]\<rparr>))
     else
       \<lparr>outcome = Normal,
        final = s3\<lparr>errorMessage :=
          Some (or_else (json_error j) (js ''Falha ao enviar a arte.''))\<rparr>,
        events = tr\<rparr>)"
  using assms by (simp add: tryBlock_1_def await_def Let_def)

lemma tryBlock_2_reply:
  assumes "requestExport e = Resolved r" and "status r = completed"
    and "getCanvaUserToken e = Resolved ut" and "getDesignToken e = Resolved dt"
    and "fetch e = Resolved resp" and "json resp = Resolved j"
  shows "tryBlock_2 e t0 s1 =
    (let s3 = s1\<lparr>title := or_else (result_title r) (js ''arte''), resultInfo := j\<rparr>;
         req = exportRequest r ut dt in
     if resp_ok resp \<and> json_ok j then
       (case buildMockupUrl t0 (result_title r) of
          Inl _ \<Rightarrow> \<lparr>outcome = Normal, final = s3, events = [Fetch req]\<rparr>
        | Inr u \<Rightarrow>
            (case requestOpenExternalUrl e of
               Inr Pending \<Rightarrow>
                 \<lparr>outcome = Hung, final = s3, events = [Fetch req, OpenExternalUrl u]\<rparr>
             | _ \<Rightarrow> \<lparr>outcome = Normal, final = s3, events = [Fetch req, OpenExternalUrl u]\<rparr>))
     else
       \<lparr>outcome = Normal,
        final = s3\<lparr>errorMessage :=
          Some (or_else (json_error j) (js ''Falha ao enviar a arte.''))\<rparr>,
        events = [Fetch req]\<rparr>)"
  using assms by (simp add: tryBlock_2_def await_def Let_def)

text \<open>The reply is accepted: what both versions do.\<close>

lemma handle_1_accepted:
  assumes "requestExport e = Resolved r" and "status r = completed"
    and "getCanvaUserToken e = Resolved ut" and "getDesignToken e = Resolved dt"
    and "fetch e = Resolved resp" and "json resp = Resolved j"
    and "resp_ok resp" and "json_ok j"
  shows "outcome (handleExportAndSend_1 e st) = Normal"
    and "final (handleExportAndSend_1 e st) =
           st\<lparr>errorMessage := None, resultInfo := j, loading := False,
              title := or_else (result_title r) (js ''arte'')\<rparr>"
    and "openedUrls (events (handleExportAndSend_1 e st)) =
           (case mockupUrl (title st) (result_title r) of Inl _ \<Rightarrow> [] | Inr u \<Rightarrow> [u])"
  using assms(7,8)
  by (simp_all add: handleExportAndSend_1_def tryBlock_1_reply [OF assms(1-6)] Let_def
      split: sum.splits promise.splits)

lemma handle_2_accepted:
  assumes "requestExport e = Resolved r" and "status r = completed"
    and "getCanvaUserToken e = Resolved ut" and "getDesignToken e = Resolved dt"
    and "fetch e = Resolved resp" and "json resp = Resolved j"
    and "resp_ok resp" and "json_ok j"
  shows "outcome (handleExportAndSend_2 e st) =
           (case buildMockupUrl (title st) (result_title r) of
              Inl _ \<Rightarrow> Normal
            | Inr u \<Rightarrow> if requestOpenExternalUrl e = Inr Pending then Hung else Normal)"
    and "final (handleExportAndSend_2 e st) =
           st\<lparr>errorMessage := None, resultInfo := j,
              loading := (outcome (handleExportAndSend_2 e st) = Hung),
              title := or_else (result_title r) (js ''arte'')\<rparr>"
    and "openedUrls (events (handleExportAndSend_2 e st)) =
           (case buildMockupUrl (title st) (result_title r) of Inl _ \<Rightarrow> [] | Inr u \<Rightarrow> [u])"
  using assms(7,8)
  by (simp_all add: handleExportAndSend_2_def tryBlock_2_reply [OF assms(1-6)] Let_def
      split: sum.splits promise.splits)

lemma handle_declined:
  assumes "requestExport e = Resolved r" and "status r = completed"
    and "getCanvaUserToken e = Resolved ut" and "getDesignToken e = Resolved dt"
    and "fetch e = Resolved resp" and "json resp = Resolved j"
    and "\<not> (resp_ok resp \<and> json_ok j)"
  shows "outcome (handleExportAndSend_1 e st) = Normal"
    and "outcome (handleExportAndSend_2 e st) = Normal"
    and "final (handleExportAndSend_1 e st) =
           st\<lparr>errorMessage := Some (or_else (json_error j) (js ''Falha ao enviar a arte.'')),
              resultInfo := j, loading := False,
              title := or_else (result_title r) (js ''arte'')\<rparr>"
    and "final (handleExportAndSend_2 e st) =
           st\<lparr>errorMessage := Some (or_else (json_error j) (js ''Falha ao enviar a arte.'')),
              resultInfo := j, loading := False,
              title := or_else (result_title r) (js ''arte'')\<rparr>"
    and "openedUrls (events (handleExportAndSend_1 e st)) = []"
    and "openedUrls (events (handleExportAndSend_2 e st)) = []"
  by (simp_all add: handleExportAndSend_1_def handleExportAndSend_2_def
      tryBlock_1_reply [OF assms(1-6)] tryBlock_2_reply [OF assms(1-6)] Let_def
      if_not_P [OF assms(7)])


lemma tryBlock_threw:
  "outcome (tryBlock_1 e t0 s1) = Threw x \<longleftrightarrow> rejection e = Some x"
  "outcome (tryBlock_2 e t0 s1) = Threw x \<longleftrightarrow> rejection e = Some x"
  by (auto simp: tryBlock_1_def tryBlock_2_def await_def rejection_def Let_def
      split: promise.splits sum.splits if_splits)

lemma tryBlock_threw_state:
  assumes "rejection e = Some x"
  shows "errorMessage (final (tryBlock_1 e t0 s1)) = errorMessage s1"
    and "resultInfo (final (tryBlock_1 e t0 s1)) = resultInfo s1"
    and "errorMessage (final (tryBlock_2 e t0 s1)) = errorMessage s1"
    and "resultInfo (final (tryBlock_2 e t0 s1)) = resultInfo s1"
    and "openedUrls (events (tryBlock_1 e t0 s1)) = []"
    and "openedUrls (events (tryBlock_2 e t0 s1)) = []"
  using assms
  by (auto simp: tryBlock_1_def tryBlock_2_def await_def rejection_def Let_def
      split: promise.splits sum.splits if_splits)

lemma handle_rejected:
  assumes "rejection e = Some x"
  shows "outcome (handleExportAndSend_1 e st) = Normal"
    and "outcome (handleExportAndSend_2 e st) = Normal"
    and "errorMessage (final (handleExportAndSend_1 e st)) =
           Some (or_else (message x) (js ''Erro inesperado.''))"
    and "errorMessage (final (handleExportAndSend_2 e st)) =
           Some (or_else (message x) (js ''Erro inesperado.''))"
    and "\<not> loading (final (handleExportAndSend_1 e st))"
    and "\<not> loading (final (handleExportAndSend_2 e st))"
proof -
  have 1: "outcome (tryBlock_1 e t0 s1) = Threw x" for t0 s1
    using assms by (simp add: tryBlock_threw)
  have 2: "outcome (tryBlock_2 e t0 s1) = Threw x" for t0 s1
    using assms by (simp add: tryBlock_threw)
  show "outcome (handleExportAndSend_1 e st) = Normal"
    "errorMessage (final (handleExportAndSend_1 e st)) =
           Some (or_else (message x) (js ''Erro inesperado.''))"
    "\<not> loading (final (handleExportAndSend_1 e st))"
    by (simp_all add: handleExportAndSend_1_def Let_def 1)
  show "outcome (handleExportAndSend_2 e st) = Normal"
    "errorMessage (final (handleExportAndSend_2 e st)) =
           Some (or_else (message x) (js ''Erro inesperado.''))"
    "\<not> loading (final (handleExportAndSend_2 e st))"
    by (simp_all add: handleExportAndSend_2_def Let_def 2)
qed

lemma handle_never_throws:
  "outcome (handleExportAndSend_1 e st) \<noteq> Threw x"
  "outcome (handleExportAndSend_2 e st) \<noteq> Threw x"
  by (simp_all add: handleExportAndSend_1_def handleExportAndSend_2_def Let_def
      split: completion.splits)

lemma phase_of_Failed:
  "\<not> loading s \<Longrightarrow> errorMessage s = Some m \<Longrightarrow> m \<noteq> [] \<Longrightarrow> phase_of s = Failed"
  by (simp add: phase_of_def)

lemma exampleEnv_reply:
  "requestExport exampleEnv = Resolved exampleResult"
  "status exampleResult = completed"
  "getCanvaUserToken exampleEnv = Resolved (js ''user-token'')"
  "getDesignToken exampleEnv = Resolved (js ''design-token'')"
  "fetch exampleEnv = Resolved \<lparr>http_status = 200, json = Resolved (Some exampleUpload)\<rparr>"
  "json \<lparr>http_status = 200, json = Resolved (Some exampleUpload)\<rparr> = Resolved (Some exampleUpload)"
  by (simp_all add: exampleEnv_def exampleResult_def)

lemma exampleReply_accepted:
  "resp_ok \<lparr>http_status = 200, json = Resolved (Some exampleUpload)\<rparr>"
  "json_ok (Some exampleUpload)"
  by (simp_all add: resp_ok_def json_ok_def exampleUpload_def)

lemma tryBlock_title:
  assumes "requestExport e = Resolved r" and "status r = completed"
  shows "title (final (tryBlock_1 e t0 s1)) = or_else (result_title r) (js ''arte'')"
    and "title (final (tryBlock_2 e t0 s1)) = or_else (result_title r) (js ''arte'')"
  using assms
  by (simp_all add: tryBlock_1_def tryBlock_2_def await_def Let_def
      split: promise.splits sum.splits)

lemma tryBlock_fetchRequests:
  assumes "requestExport e = Resolved r" and "status r = completed"
    and "getCanvaUserToken e = Resolved ut" and "getDesignToken e = Resolved dt"
  shows "fetchRequests (events (tryBlock_1 e t0 s1)) = [exportRequest r ut dt]"
    and "fetchRequests (events (tryBlock_2 e t0 s1)) = [exportRequest r ut dt]"
  using assms
  by (simp_all add: tryBlock_1_def tryBlock_2_def await_def Let_def
      split: promise.splits sum.splits)

lemma tryBlock_no_fetch:
  assumes "requestExport e = Resolved r" and "status r = completed"
    and "(\<forall>ut. getCanvaUserToken e \<noteq> Resolved ut) \<or> (\<forall>dt. getDesignToken e \<noteq> Resolved dt)"
  shows "fetchRequests (events (tryBlock_1 e t0 s1)) = []"
    and "fetchRequests (events (tryBlock_2 e t0 s1)) = []"
  using assms
  by (auto simp: tryBlock_1_def tryBlock_2_def await_def Let_def
      split: promise.splits sum.splits)

lemma fetchRequests_append: "fetchRequests (xs @ ys) = fetchRequests xs @ fetchRequests ys"
  by (induction xs rule: fetchRequests.induct) simp_all

lemma handle_title:
  "title (final (handleExportAndSend_1 e st)) =
     title (final (tryBlock_1 e (title st)
       (st\<lparr>errorMessage := None, resultInfo := None, loading := True\<rparr>)))"
  "title (final (handleExportAndSend_2 e st)) =
     title (final (tryBlock_2 e (title st)
       (st\<lparr>errorMessage := None, resultInfo := None, loading := True\<rparr>)))"
  by (simp_all add: handleExportAndSend_1_def handleExportAndSend_2_def Let_def
      split: completion.splits)

lemma handle_fetchRequests:
  "fetchRequests (events (handleExportAndSend_1 e st)) =
     fetchRequests (events (tryBlock_1 e (title st)
       (st\<lparr>errorMessage := None, resultInfo := None, loading := True\<rparr>)))"
  "fetchRequests (events (handleExportAndSend_2 e st)) =
     fetchRequests (events (tryBlock_2 e (title st)
       (st\<lparr>errorMessage := None, resultInfo := None, loading := True\<rparr>)))"
  by (simp_all add: handleExportAndSend_1_def handleExportAndSend_2_def Let_def
      fetchRequests_append split: completion.splits)

lemma phase_of_Success:
  "\<not> loading s \<Longrightarrow> errorMessage s = None \<Longrightarrow> resultInfo s = Some u \<Longrightarrow> ok u \<Longrightarrow>
   phase_of s = Success"
  by (simp add: phase_of_def)

lemma declinedEnv_reply:
  "requestExport declinedEnv = Resolved exampleResult \<and> status exampleResult = completed \<and>
   getCanvaUserToken declinedEnv = Resolved (js ''user-token'') \<and>
   getDesignToken declinedEnv = Resolved (js ''design-token'') \<and>
   fetch declinedEnv =
     Resolved \<lparr>http_status = 200,
       json = Resolved (Some (exampleUpload\<lparr>ok := False, error := Some invalidFile\<rparr>))\<rparr> \<and>
   json \<lparr>http_status = 200,
       json = Resolved (Some (exampleUpload\<lparr>ok := False, error := Some invalidFile\<rparr>))\<rparr> =
     Resolved (Some (exampleUpload\<lparr>ok := False, error := Some invalidFile\<rparr>)) \<and>
   \<not> (resp_ok \<lparr>http_status = 200,
       json = Resolved (Some (exampleUpload\<lparr>ok := False, error := Some invalidFile\<rparr>))\<rparr> \<and>
      json_ok (Some (exampleUpload\<lparr>ok := False, error := Some invalidFile\<rparr>)))"
  by (simp add: declinedEnv_def exampleEnv_def exampleResult_def json_ok_def)

lemma offlineEnv_rejection: "rejection offlineEnv = Some boom"
  by (simp add: rejection_def offlineEnv_def exampleEnv_def exampleResult_def)

section \<open>Encoding and decoding are inverse\<close>

lemma unat_small: "n < 65536 \<Longrightarrow> unat (word_of_nat n :: 16 word) = n"
  by (simp add: unat_of_nat)

lemma unat_hexDigit: "n < 16 \<Longrightarrow> unat (hexDigit n) = (if n < 10 then 48 + n else 55 + n)"
  unfolding hexDigit_def by (simp add: unat_of_nat del: of_nat_add of_nat_numeral of_nat_diff)

lemma hexValue_hexDigit: "n < 16 \<Longrightarrow> hexValue (hexDigit n) = Some n"
  by (simp add: hexValue_def unat_hexDigit Let_def)

lemma ParseHexOctet_hexDigit:
  "b < 256 \<Longrightarrow> ParseHexOctet (hexDigit (b div 16)) (hexDigit (b mod 16)) = Some b"
proof -
  assume "b < 256"
  then have "b div 16 < 16" by simp
  then show ?thesis
    by (simp add: ParseHexOctet_def hexValue_hexDigit)
qed

lemma continuationOctets_escape:
  "\<forall>b \<in> set bs. b < 256 \<Longrightarrow>
   continuationOctets (length bs) (concat (map escapeOctet bs) @ rest) = Some (bs, rest)"
  by (induction bs) (simp_all add: escapeOctet_def ParseHexOctet_hexDigit)

lemma utf8_value_2: "0x80 \<le> cp \<Longrightarrow> cp < 0x800 \<Longrightarrow> utf8_value (utf8_octets cp) = Some cp"
  by (simp add: utf8_value_def utf8_octets_def isContinuation_def Let_def)

lemma split3: "(cp::nat) div 0x1000 * 0x1000 + cp div 0x40 mod 0x40 * 0x40 + cp mod 0x40 = cp"
proof -
  define q a b c where "q = cp div 64" and "a = q div 64" and "b = q mod 64" and "c = cp mod 64"
  have 1: "cp = q * 64 + c" by (simp add: q_def c_def)
  have 2: "q = a * 64 + b" by (simp add: a_def b_def)
  have 3: "cp div 4096 = a" by (simp add: a_def q_def div_mult2_eq)
  have "a * 4096 + b * 64 + c = cp" using 1 2 by linarith
  then show ?thesis
    by (simp add: 3 b_def c_def q_def)
qed

lemma split4:
  "(cp::nat) div 0x40000 * 0x40000 + cp div 0x1000 mod 0x40 * 0x1000 +
        cp div 0x40 mod 0x40 * 0x40 + cp mod 0x40 = cp"
proof -
  define q p a b c d where "q = cp div 64" and "p = q div 64" and "a = p div 64"
    and "b = p mod 64" and "c = q mod 64" and "d = cp mod 64"
  have 1: "cp = q * 64 + d" by (simp add: q_def d_def)
  have 2: "q = p * 64 + c" by (simp add: p_def c_def)
  have 3: "p = a * 64 + b" by (simp add: a_def b_def)
  have 4: "cp div 4096 = p" by (simp add: p_def q_def div_mult2_eq)
  have 5: "cp div 262144 = a" by (simp add: a_def p_def q_def div_mult2_eq)
  have "a * 262144 + b * 4096 + c * 64 + d = cp" using 1 2 3 by linarith
  then show ?thesis
    by (simp add: 4 5 b_def c_def d_def q_def)
qed

lemma mod64_le: "(x::nat) mod 64 \<le> 63"
proof -
  have "x mod 64 < 64" by simp
  then show ?thesis by simp
qed

lemma utf8_value_3:
  "0x800 \<le> cp \<Longrightarrow> cp < 0x10000 \<Longrightarrow> \<not> (0xD800 \<le> cp \<and> cp \<le> 0xDFFF) \<Longrightarrow>
   utf8_value (utf8_octets cp) = Some cp"
  using split3 [of cp]
  by (simp add: utf8_value_def utf8_octets_def isContinuation_def Let_def mod64_le)

lemma utf8_value_4:
  "0x10000 \<le> cp \<Longrightarrow> cp \<le> 0x10FFFF \<Longrightarrow> utf8_value (utf8_octets cp) = Some cp"
  using split4 [of cp]
  by (simp add: utf8_value_def utf8_octets_def isContinuation_def Let_def mod64_le)

lemma unescaped_not_percent: "unescaped c \<Longrightarrow> c \<noteq> 0x25"
  by (auto simp: unescaped_def Let_def)

lemma Decode_copy: "c \<noteq> 0x25 \<Longrightarrow> Decode (c # s) = prepend [c] (Decode s)"
  by simp

lemma Decode_single:
  assumes "b < 0x80"
  shows "Decode (escapeOctet b @ s) = prepend [word_of_nat b] (Decode s)"
proof -
  have p: "ParseHexOctet (hexDigit (b div 16)) (hexDigit (b mod 16)) = Some b"
    using assms by (simp add: ParseHexOctet_hexDigit)
  have l: "leadingOnes b = 0"
    using assms by (simp add: leadingOnes_def)
  show ?thesis
    by (simp add: escapeOctet_def p l del: of_nat_numeral of_nat_add)
qed

lemma Decode_multi:
  assumes "b0 < 256" and "\<forall>b \<in> set bs. b < 256"
    and "leadingOnes b0 = Suc (length bs)" and "bs \<noteq> []" and "length bs \<le> 3"
    and "utf8_value (b0 # bs) = Some V"
  shows "Decode (concat (map escapeOctet (b0 # bs)) @ s) =
           prepend (UTF16EncodeCodePoint V) (Decode s)"
proof -
  have p: "ParseHexOctet (hexDigit (b0 div 16)) (hexDigit (b0 mod 16)) = Some b0"
    using assms(1) by (simp add: ParseHexOctet_hexDigit)
  have "Decode (0x25 # hexDigit (b0 div 16) # hexDigit (b0 mod 16) #
                 (concat (map escapeOctet bs) @ s)) =
          prepend (UTF16EncodeCodePoint V) (Decode s)"
    using assms(4,5)
    by (subst Decode.simps)
      (simp add: p assms(3) assms(6) continuationOctets_escape [OF assms(2)])
  then show ?thesis
    by (simp add: escapeOctet_def)
qed

lemma Decode_escapeCodePoint:
  assumes "cp \<le> 0x10FFFF" and "\<not> (0xD800 \<le> cp \<and> cp \<le> 0xDFFF)"
  shows "Decode (escapeCodePoint cp @ s) = prepend (UTF16EncodeCodePoint cp) (Decode s)"
proof -
  consider (one) "cp < 0x80" | (two) "0x80 \<le> cp" "cp < 0x800"
    | (three) "0x800 \<le> cp" "cp < 0x10000" | (four) "0x10000 \<le> cp"
    by linarith
  then show ?thesis
  proof cases
    case one
    then show ?thesis
      using Decode_single [of cp s]
      by (simp add: escapeCodePoint_def utf8_octets_def UTF16EncodeCodePoint_def)
  next
    case two
    have o: "utf8_octets cp = [0xC0 + cp div 0x40, 0x80 + cp mod 0x40]"
      using two by (simp add: utf8_octets_def)
    have d: "cp div 0x40 < 0x20"
      using two by simp
    have "Decode (concat (map escapeOctet [0xC0 + cp div 0x40, 0x80 + cp mod 0x40]) @ s) =
            prepend (UTF16EncodeCodePoint cp) (Decode s)"
    proof (rule Decode_multi)
      show "0xC0 + cp div 0x40 < 256" using d by simp
      show "\<forall>b\<in>set [0x80 + cp mod 0x40]. b < 256"
        using mod64_le [of cp] by simp
      show "leadingOnes (0xC0 + cp div 0x40) = Suc (length [0x80 + cp mod 0x40])"
        using d by (simp add: leadingOnes_def)
      show "utf8_value [0xC0 + cp div 0x40, 0x80 + cp mod 0x40] = Some cp"
        using utf8_value_2 [OF two] by (simp add: o)
    qed simp_all
    then show ?thesis
      by (simp add: escapeCodePoint_def o)
  next
    case three
    have o: "utf8_octets cp =
               [0xE0 + cp div 0x1000, 0x80 + cp div 0x40 mod 0x40, 0x80 + cp mod 0x40]"
      using three by (simp add: utf8_octets_def)
    have d: "cp div 0x1000 < 0x10"
      using three by simp
    have "Decode (concat (map escapeOctet
             [0xE0 + cp div 0x1000, 0x80 + cp div 0x40 mod 0x40, 0x80 + cp mod 0x40]) @ s) =
            prepend (UTF16EncodeCodePoint cp) (Decode s)"
    proof (rule Decode_multi)
      show "0xE0 + cp div 0x1000 < 256" using d by simp
      show "\<forall>b\<in>set [0x80 + cp div 0x40 mod 0x40, 0x80 + cp mod 0x40]. b < 256"
        using mod64_le [of cp] mod64_le [of "cp div 0x40"] by simp
      show "leadingOnes (0xE0 + cp div 0x1000) =
              Suc (length [0x80 + cp div 0x40 mod 0x40, 0x80 + cp mod 0x40])"
        using d by (simp add: leadingOnes_def)
      show "utf8_value [0xE0 + cp div 0x1000, 0x80 + cp div 0x40 mod 0x40, 0x80 + cp mod 0x40]
              = Some cp"
        using utf8_value_3 [OF three assms(2)] by (simp add: o)
    qed simp_all
    then show ?thesis
      by (simp add: escapeCodePoint_def o)
  next
    case four
    have o: "utf8_octets cp =
               [0xF0 + cp div 0x40000, 0x80 + cp div 0x1000 mod 0x40,
                0x80 + cp div 0x40 mod 0x40, 0x80 + cp mod 0x40]"
      using four by (simp add: utf8_octets_def)
    have d: "cp div 0x40000 < 0x8"
      using assms(1) by simp
    have "Decode (concat (map escapeOctet
             [0xF0 + cp div 0x40000, 0x80 + cp div 0x1000 mod 0x40,
              0x80 + cp div 0x40 mod 0x40, 0x80 + cp mod 0x40]) @ s) =
            prepend (UTF16EncodeCodePoint cp) (Decode s)"
    proof (rule Decode_multi)
      show "0xF0 + cp div 0x40000 < 256" using d by simp
      show "\<forall>b\<in>set [0x80 + cp div 0x1000 mod 0x40, 0x80 + cp div 0x40 mod 0x40,
                     0x80 + cp mod 0x40]. b < 256"
        using mod64_le [of cp] mod64_le [of "cp div 0x40"] mod64_le [of "cp div 0x1000"]
        by simp
      show "leadingOnes (0xF0 + cp div 0x40000) =
              Suc (length [0x80 + cp div 0x1000 mod 0x40, 0x80 + cp div 0x40 mod 0x40,
                           0x80 + cp mod 0x40])"
        using d by (simp add: leadingOnes_def)
      show "utf8_value [0xF0 + cp div 0x40000, 0x80 + cp div 0x1000 mod 0x40,
                        0x80 + cp div 0x40 mod 0x40, 0x80 + cp mod 0x40] = Some cp"
        using utf8_value_4 [OF four assms(1)] by (simp add: o)
    qed simp_all
    then show ?thesis
      by (simp add: escapeCodePoint_def o)
  qed
qed

lemma unat_16_bound: "unat (c :: 16 word) < 65536"
  using unsigned_less [of c, where 'a = nat] by simp

lemma UTF16EncodeCodePoint_unit: "UTF16EncodeCodePoint (unat (c :: 16 word)) = [c]"
  using unat_16_bound [of c] by (simp add: UTF16EncodeCodePoint_def)

lemma UTF16EncodeCodePoint_pair:
  assumes "isLeadingSurrogate c" and "isTrailingSurrogate d"
  shows "UTF16EncodeCodePoint (UTF16SurrogatePairToCodePoint c d) = [c, d]"
proof -
  define h l where "h = unat c - 0xD800" and "l = unat d - 0xDC00"
  have hl: "unat c = h + 0xD800" "unat d = l + 0xDC00" "l < 0x400" "h < 0x400"
    using assms unfolding h_def l_def isLeadingSurrogate_def isTrailingSurrogate_def
    by linarith+
  have cp: "UTF16SurrogatePairToCodePoint c d = h * 0x400 + l + 0x10000"
    by (simp add: UTF16SurrogatePairToCodePoint_def h_def l_def)
  have dv: "(h * 0x400 + l) div 0x400 = h" "(h * 0x400 + l) mod 0x400 = l"
    using hl(3) by simp_all
  have "word_of_nat (h + 0xD800) = c" "word_of_nat (l + 0xDC00) = d"
    unfolding hl(1,2) [symmetric] by simp_all
  moreover have "l mod 0x400 = l"
    using hl(3) by simp
  ultimately show ?thesis
    by (simp add: cp UTF16EncodeCodePoint_def dv del: of_nat_add of_nat_numeral)
qed

lemma pair_code_point_range:
  assumes "isLeadingSurrogate c" and "isTrailingSurrogate d"
  shows "0x10000 \<le> UTF16SurrogatePairToCodePoint c d"
    and "UTF16SurrogatePairToCodePoint c d \<le> 0x10FFFF"
  using assms
  unfolding UTF16SurrogatePairToCodePoint_def isLeadingSurrogate_def isTrailingSurrogate_def
  by linarith+

lemma prepend_Inr: "prepend p r = Inr e \<longleftrightarrow> (\<exists>e'. r = Inr e' \<and> e = p @ e')"
  by (auto simp: prepend_def split: sum.splits)

lemma prepend_Inr_simp [simp]: "prepend p (Inr s) = Inr (p @ s)"
  by (simp add: prepend_def)

lemma unescaped_not_surrogate:
  "unescaped c \<Longrightarrow> \<not> isLeadingSurrogate c \<and> \<not> isTrailingSurrogate c"
  by (auto simp: unescaped_def isLeadingSurrogate_def isTrailingSurrogate_def Let_def)

lemma surrogates_disjoint: "isLeadingSurrogate c \<Longrightarrow> \<not> isTrailingSurrogate c"
  by (simp add: isLeadingSurrogate_def isTrailingSurrogate_def)

lemma Decode_unit:
  assumes "\<not> isLeadingSurrogate c" and "\<not> isTrailingSurrogate c"
  shows "Decode (escapeCodePoint (unat c) @ s) = prepend [c] (Decode s)"
proof -
  have "unat c \<le> 0x10FFFF"
    using unat_16_bound [of c] by simp
  moreover have "\<not> (0xD800 \<le> unat c \<and> unat c \<le> 0xDFFF)"
    using assms unfolding isLeadingSurrogate_def isTrailingSurrogate_def by linarith
  ultimately show ?thesis
    by (simp add: Decode_escapeCodePoint UTF16EncodeCodePoint_unit)
qed

lemma Decode_pair:
  assumes "isLeadingSurrogate c" and "isTrailingSurrogate d"
  shows "Decode (escapeCodePoint (UTF16SurrogatePairToCodePoint c d) @ s) =
           prepend [c, d] (Decode s)"
proof -
  have "\<not> (0xD800 \<le> UTF16SurrogatePairToCodePoint c d \<and>
           UTF16SurrogatePairToCodePoint c d \<le> 0xDFFF)"
    using pair_code_point_range(1) [OF assms] by simp
  then show ?thesis
    by (simp add: Decode_escapeCodePoint pair_code_point_range(2) [OF assms]
        UTF16EncodeCodePoint_pair [OF assms])
qed

lemma Decode_Encode: "Encode s = Inr e \<Longrightarrow> Decode e = Inr s"
proof (induction s arbitrary: e rule: Encode.induct)
  case 1
  then show ?case by simp
next
  case (2 c)
  show ?case
  proof (cases "unescaped c")
    case True
    with 2 have "e = [c]" by simp
    then show ?thesis
      by (simp add: Decode_copy unescaped_not_percent [OF True])
  next
    case False
    with 2 have n: "\<not> isLeadingSurrogate c" "\<not> isTrailingSurrogate c"
      and e: "e = escapeCodePoint (unat c)"
      by (auto split: if_splits)
    show ?thesis
      using Decode_unit [OF n, of "[]"] by (simp add: e)
  qed
next
  case (3 c d s)
  show ?case
  proof (cases "unescaped c")
    case True
    with "3.prems" obtain e' where e': "Encode (d # s) = Inr e'" "e = [c] @ e'"
      by (auto simp: prepend_Inr)
    have "Decode e' = Inr (d # s)"
      by (rule "3.IH"(1) [OF True e'(1)])
    then show ?thesis
      by (simp add: e'(2) Decode_copy unescaped_not_percent [OF True])
  next
    case False
    show ?thesis
    proof (cases "\<not> isLeadingSurrogate c \<and> \<not> isTrailingSurrogate c")
      case True
      with False "3.prems" obtain e' where e': "Encode (d # s) = Inr e'"
        "e = escapeCodePoint (unat c) @ e'"
        by (auto simp: prepend_Inr)
      have "Decode e' = Inr (d # s)"
        by (rule "3.IH"(2) [OF False True e'(1)])
      then show ?thesis
        using True by (simp add: e'(2) Decode_unit)
    next
      case nonunit: False
      with False "3.prems" have l: "isLeadingSurrogate c" "\<not> isTrailingSurrogate c"
        "isTrailingSurrogate d"
        by (auto split: if_splits)
      with False nonunit "3.prems" obtain e' where e': "Encode s = Inr e'"
        "e = escapeCodePoint (UTF16SurrogatePairToCodePoint c d) @ e'"
        by (auto simp: prepend_Inr)
      have "Decode e' = Inr s"
        using "3.IH"(3) [OF False nonunit _ _ e'(1)] l by simp
      then show ?thesis
        by (simp add: e'(2) Decode_pair [OF l(1,3)])
    qed
  qed
qed

lemma Encode_total: "isWellFormed s \<longleftrightarrow> (\<exists>e. Encode s = Inr e)"
proof (induction s rule: Encode.induct)
  case 1
  then show ?case by simp
next
  case (2 c)
  then show ?case
    by (auto dest: unescaped_not_surrogate)
next
  case (3 c d s)
  show ?case
  proof (cases "unescaped c")
    case True
    then show ?thesis
      using "3.IH"(1) [OF True] unescaped_not_surrogate [OF True]
      by (auto simp: prepend_Inr)
  next
    case False
    show ?thesis
    proof (cases "\<not> isLeadingSurrogate c \<and> \<not> isTrailingSurrogate c")
      case True
      then show ?thesis
        using "3.IH"(2) [OF False True] False by (auto simp: prepend_Inr)
    next
      case nonunit: False
      show ?thesis
      proof (cases "isTrailingSurrogate c")
        case True
        then show ?thesis
          using False surrogates_disjoint [of c] by auto
      next
        case nt: False
        then have lead: "isLeadingSurrogate c"
          using nonunit by simp
        show ?thesis
        proof (cases "isTrailingSurrogate d")
          case True
          then show ?thesis
            using "3.IH"(3) [OF False nonunit nt] False nonunit nt lead
            by (auto simp: prepend_Inr)
        next
          case False2: False
          then show ?thesis
            using False nonunit nt lead by auto
        qed
      qed
    qed
  qed
qed

lemma splitOn_append: "sep \<notin> set a \<Longrightarrow> splitOn sep (a @ sep # b) = a # splitOn sep b"
  by (induction a) auto

lemma splitOn_none: "sep \<notin> set a \<Longrightarrow> splitOn sep a = [a]"
  by (induction a) auto

lemma unescaped_hexDigit: "n < 16 \<Longrightarrow> unescaped (hexDigit n)"
  by (simp add: unescaped_def unat_hexDigit Let_def)

lemma escapeOctet_chars:
  "b < 256 \<Longrightarrow> \<forall>c \<in> set (escapeOctet b). unescaped c \<or> c = 0x25"
proof -
  assume "b < 256"
  then have "b div 16 < 16" by simp
  then show ?thesis
    by (simp add: escapeOctet_def unescaped_hexDigit)
qed

lemma utf8_octets_bound: "cp \<le> 0x10FFFF \<Longrightarrow> \<forall>b \<in> set (utf8_octets cp). b < 256"
proof -
  assume a: "cp \<le> 0x10FFFF"
  have "cp < 0x800 \<Longrightarrow> cp div 0x40 < 0x20" "cp < 0x10000 \<Longrightarrow> cp div 0x1000 < 0x10"
    "cp div 0x40000 < 0x8"
    using a by simp_all
  then show ?thesis
    using mod64_le [of cp] mod64_le [of "cp div 0x40"] mod64_le [of "cp div 0x1000"]
    by (auto simp: utf8_octets_def)
qed

lemma escapeCodePoint_chars:
  "cp \<le> 0x10FFFF \<Longrightarrow> \<forall>c \<in> set (escapeCodePoint cp). unescaped c \<or> c = 0x25"
  using utf8_octets_bound [of cp] escapeOctet_chars
  by (auto simp: escapeCodePoint_def)

lemma Encode_chars: "Encode s = Inr e \<Longrightarrow> \<forall>c \<in> set e. unescaped c \<or> c = 0x25"
proof (induction s arbitrary: e rule: Encode.induct)
  case 1
  then show ?case by simp
next
  case (2 c)
  have "unat c \<le> 0x10FFFF"
    using unat_16_bound [of c] by simp
  with 2 show ?case
    using escapeCodePoint_chars [of "unat c"] by (auto split: if_splits)
next
  case (3 c d s)
  have u: "unat c \<le> 0x10FFFF"
    using unat_16_bound [of c] by simp
  show ?case
  proof (cases "unescaped c")
    case True
    with "3.prems" obtain e' where e': "Encode (d # s) = Inr e'" "e = [c] @ e'"
      by (auto simp: prepend_Inr)
    show ?thesis
      using "3.IH"(1) [OF True e'(1)] True by (simp add: e'(2))
  next
    case False
    show ?thesis
    proof (cases "\<not> isLeadingSurrogate c \<and> \<not> isTrailingSurrogate c")
      case True
      with False "3.prems" obtain e' where e': "Encode (d # s) = Inr e'"
        "e = escapeCodePoint (unat c) @ e'"
        by (auto simp: prepend_Inr)
      show ?thesis
        using "3.IH"(2) [OF False True e'(1)] escapeCodePoint_chars [OF u]
        by (auto simp: e'(2))
    next
      case nonunit: False
      with False "3.prems" have l: "isLeadingSurrogate c" "\<not> isTrailingSurrogate c"
        "isTrailingSurrogate d"
        by (auto split: if_splits)
      with False nonunit "3.prems" obtain e' where e': "Encode s = Inr e'"
        "e = escapeCodePoint (UTF16SurrogatePairToCodePoint c d) @ e'"
        by (auto simp: prepend_Inr)
      have "\<forall>c \<in> set e'. unescaped c \<or> c = 0x25"
        using "3.IH"(3) [OF False nonunit _ _ e'(1)] l by simp
      then show ?thesis
        using escapeCodePoint_chars [OF pair_code_point_range(2) [OF l(1,3)]]
        by (auto simp: e'(2))
    qed
  qed
qed

lemma Encode_no_separator:
  assumes "Encode s = Inr e"
  shows "0x26 \<notin> set e" and "0x3D \<notin> set e" and "0x3F \<notin> set e"
  using Encode_chars [OF assms]
  by (auto simp: unescaped_def Let_def)

lemmas encode_eval = encodeURIComponent_def unescaped_def isLeadingSurrogate_def
  isTrailingSurrogate_def escapeCodePoint_def utf8_octets_def escapeOctet_def hexDigit_def
  prepend_def js_def Let_def

lemma encode_modelo: "encodeURIComponent modelo = Inr (js ''2%20Canecas%20Padr%C3%A3o'')"
  by (simp add: modelo_def encode_eval)

lemma encode_cor: "encodeURIComponent cor = Inr (js ''Branca'')"
  by (simp add: cor_def encode_eval)

lemma mockupTemplate_Inr:
  "encodeURIComponent t = Inr a \<Longrightarrow>
   mockupTemplate t =
     Inr (js ''https://admin.levebrasa.com/internal/mockup?modelo=2%20Canecas%20Padr%C3%A3o&arte=''
          @ a @ js ''&cor=Branca'')"
  by (simp add: mockupTemplate_def encode_modelo encode_cor js_def)

lemma mockupTemplate_Inl:
  "encodeURIComponent t = Inl x \<Longrightarrow> mockupTemplate t = Inl x"
  by (simp add: mockupTemplate_def encode_modelo)

lemma takeWhile_until:
  "sep \<notin> set a \<Longrightarrow> takeWhile (\<lambda>c. c \<noteq> sep) (a @ sep # r) = a"
  by (induction a) auto

lemma dropWhile_until:
  "sep \<notin> set a \<Longrightarrow> dropWhile (\<lambda>c. c \<noteq> sep) (a @ sep # r) = sep # r"
  by (induction a) auto

lemma queryParam_arte:
  assumes "0x26 \<notin> set a" and "0x3D \<notin> set a"
  shows "queryParam (js ''arte'')
           (js ''https://admin.levebrasa.com/internal/mockup?modelo=2%20Canecas%20Padr%C3%A3o&arte=''
            @ a @ js ''&cor=Branca'') = Some a"
proof -
  have s: "splitOn 0x26 (js ''modelo=2%20Canecas%20Padr%C3%A3o'' @ 0x26 # (js ''arte='' @ a) @
             0x26 # js ''cor=Branca'') =
           [js ''modelo=2%20Canecas%20Padr%C3%A3o'', js ''arte='' @ a, js ''cor=Branca'']"
    using assms(1)
    by (subst splitOn_append, simp add: js_def, subst splitOn_append, simp add: js_def,
        subst splitOn_none, simp add: js_def, simp)
  have q: "queryString
           (js ''https://admin.levebrasa.com/internal/mockup?modelo=2%20Canecas%20Padr%C3%A3o&arte=''
            @ a @ js ''&cor=Branca'') =
           js ''modelo=2%20Canecas%20Padr%C3%A3o'' @ 0x26 # (js ''arte='' @ a) @
             0x26 # js ''cor=Branca''"
    by (simp add: queryString_def js_def)
  have k: "takeWhile (\<lambda>c. c \<noteq> 0x3D) (js ''modelo=2%20Canecas%20Padr%C3%A3o'') \<noteq> js ''arte''"
    by (simp add: js_def)
  have t: "takeWhile (\<lambda>c. c \<noteq> 0x3D) (js ''arte='' @ a) = js ''arte''"
    using takeWhile_until [of "0x3D" "js ''arte''" a] by (simp add: js_def)
  have d: "dropWhile (\<lambda>c. c \<noteq> 0x3D) (js ''arte='' @ a) = 0x3D # a"
    using dropWhile_until [of "0x3D" "js ''arte''" a] by (simp add: js_def)
  show ?thesis
    unfolding queryParam_def q s by (simp add: k t d)
qed

lemma mockupUrl_eq: "mockupUrl title0 T = mockupTemplate (mockupTitle title0 T)"
  by (simp add: mockupUrl_def)

lemma buildMockupUrl_eq: "buildMockupUrl title0 T = mockupTemplate (finalTitle title0 T)"
  by (simp add: buildMockupUrl_def)

lemma mockupTemplate_roundtrip:
  assumes "isWellFormed t"
  shows "\<exists>u. mockupTemplate t = Inr u \<and> decodedParam (js ''arte'') u = Some t"
proof -
  obtain a where a: "Encode t = Inr a"
    using assms Encode_total by blast
  have e: "encodeURIComponent t = Inr a"
    by (simp add: encodeURIComponent_def a)
  have d: "decodeURIComponent a = Inr t"
    by (simp add: decodeURIComponent_def Decode_Encode [OF a])
  have q: "queryParam (js ''arte'')
           (js ''https://admin.levebrasa.com/internal/mockup?modelo=2%20Canecas%20Padr%C3%A3o&arte=''
            @ a @ js ''&cor=Branca'') = Some a"
    by (rule queryParam_arte) (rule Encode_no_separator [OF a])+
  show ?thesis
    by (simp add: mockupTemplate_Inr [OF e] decodedParam_def q d)
qed

lemma mockupTemplate_throws:
  assumes "\<not> isWellFormed t"
  shows "mockupTemplate t = Inl URIError"
proof -
  have "\<nexists>e. Encode t = Inr e"
    using assms Encode_total by blast
  then obtain x where "Encode t = Inl x"
    by (cases "Encode t") auto
  then have "encodeURIComponent t = Inl URIError"
    by (cases x) (simp add: encodeURIComponent_def)
  then show ?thesis
    by (rule mockupTemplate_Inl)
qed

lemma finalTitle_cases:
  "T = Some t \<Longrightarrow> trim t \<noteq> [] \<Longrightarrow> finalTitle title0 T = trim t"
  "T = None \<or> T = Some t \<and> trim t = [] \<Longrightarrow> title0 \<noteq> [] \<Longrightarrow> finalTitle title0 T = title0"
  "T = None \<or> T = Some t \<and> trim t = [] \<Longrightarrow> title0 = [] \<Longrightarrow> finalTitle title0 T = js ''arte''"
  by (auto simp: finalTitle_def or_else_def)

lemma mockupTitle_cases:
  "T = Some t \<Longrightarrow> t \<noteq> [] \<Longrightarrow> mockupTitle title0 T = t"
  "T = None \<or> T = Some [] \<Longrightarrow> title0 \<noteq> [] \<Longrightarrow> mockupTitle title0 T = title0"
  "T = None \<or> T = Some [] \<Longrightarrow> title0 = [] \<Longrightarrow> mockupTitle title0 T = js ''arte''"
  by (auto simp: mockupTitle_def or_else_def)

section \<open>The render of the second version\<close>

lemma wf_arte: "isWellFormed (js ''arte'')"
  by (simp add: js_def isLeadingSurrogate_def isTrailingSurrogate_def)

lemma finalTitle_None: "finalTitle t None = (if t = [] then js ''arte'' else t)"
  by (simp add: finalTitle_def or_else_def)

lemma render_2_wellFormed: "isWellFormed (title s) \<Longrightarrow> render_2 s = Inr (phase_of s)"
proof -
  assume w: "isWellFormed (title s)"
  have "isWellFormed (finalTitle (title s) None)"
    using w wf_arte by (simp add: finalTitle_None)
  from mockupTemplate_roundtrip [OF this] show ?thesis
    by (auto simp: render_2_def buildMockupUrl_eq)
qed

lemma render_2_throws: "\<not> isWellFormed (title s) \<Longrightarrow> render_2 s = Inl URIError"
proof -
  assume w: "\<not> isWellFormed (title s)"
  then have "title s \<noteq> []" by auto
  then have "\<not> isWellFormed (finalTitle (title s) None)"
    using w by (simp add: finalTitle_None)
  from mockupTemplate_throws [OF this] show ?thesis
    by (simp add: render_2_def buildMockupUrl_eq)
qed

lemma isWellFormed_Cons_unit:
  "\<not> isLeadingSurrogate c \<Longrightarrow> \<not> isTrailingSurrogate c \<Longrightarrow>
   isWellFormed (c # s) = isWellFormed s"
  by (cases s) simp_all

lemma isWellFormed_snoc_unit:
  "\<not> isLeadingSurrogate c \<Longrightarrow> \<not> isTrailingSurrogate c \<Longrightarrow>
   isWellFormed (s @ [c]) = isWellFormed s"
  by (induction s rule: isWellFormed.induct) auto

lemma isWhiteSpace_unit:
  "isWhiteSpace c \<Longrightarrow> \<not> isLeadingSurrogate c \<and> \<not> isTrailingSurrogate c"
  by (auto simp: isWhiteSpace_def isLeadingSurrogate_def isTrailingSurrogate_def Let_def)

lemma isWellFormed_dropWhile:
  "isWellFormed (dropWhile isWhiteSpace s) = isWellFormed s"
  by (induction s) (auto simp: isWellFormed_Cons_unit dest: isWhiteSpace_unit)

lemma isWellFormed_dropEnd:
  "isWellFormed (rev (dropWhile isWhiteSpace (rev s))) = isWellFormed s"
  by (induction s rule: rev_induct) (auto simp: isWellFormed_snoc_unit dest: isWhiteSpace_unit)

lemma isWellFormed_trim: "isWellFormed (trim s) = isWellFormed s"
  by (simp add: trim_def isWellFormed_dropEnd isWellFormed_dropWhile)

lemma recorded_title_wellFormed:
  assumes "isWellFormed (finalTitle t0 T)"
  shows "isWellFormed (or_else T (js ''arte''))"
proof (cases T)
  case None
  then show ?thesis by (simp add: or_else_def wf_arte)
next
  case (Some t)
  show ?thesis
  proof (cases "trim t = []")
    case True
    then have "isWellFormed t"
      using isWellFormed_trim [of t] by simp
    then show ?thesis
      by (simp add: Some or_else_def wf_arte)
  next
    case False
    then have "finalTitle t0 T = trim t" "t \<noteq> []"
      by (auto simp: Some finalTitle_def or_else_def trim_def)
    then show ?thesis
      using assms by (simp add: Some or_else_def isWellFormed_trim)
  qed
qed

lemma render_2_Inr_wellFormed: "render_2 s = Inr p \<Longrightarrow> isWellFormed (title s)"
  using render_2_throws [of s] by auto

lemma render_2_title_cong:
  "title s' = title s \<Longrightarrow> render_2 s = Inr p \<Longrightarrow> render_2 s' = Inr (phase_of s')"
  using render_2_Inr_wellFormed [of s p] render_2_wellFormed [of s'] by simp

lemma render_2_initial: "render_2 initial = Inr Idle"
  using render_2_wellFormed [of initial] by (simp add: initial_def phase_of_def)

lemma render_2_reset: "render_2 (reset s) = Inr (phase_of (reset s))"
  by (rule render_2_wellFormed) (simp add: reset_def)

section \<open>Example evaluations\<close>

lemmas trim_eval = trim_def isWhiteSpace_def js_def Let_def

lemma js_append: "js (a @ b) = js a @ js b"
  by (simp add: js_def)

lemma exampleTitle_final:
  "finalTitle [] (Some exampleTitle) = exampleTrimmed"
  "trim exampleTitle = exampleTrimmed"
  "isWellFormed exampleTrimmed"
  by (simp_all add: finalTitle_def or_else_def exampleTitle_def exampleTrimmed_def trim_eval
      isLeadingSurrogate_def isTrailingSurrogate_def)

lemma encode_padded: "Encode (js '' a b'') = Inr (js ''%20a%20b'')"
  by (simp add: encode_eval)

lemma exampleResult_title:
  "mockupTitle (title initial) (result_title exampleResult) = loggedTitle"
  "finalTitle (title initial) (result_title exampleResult) = loggedTitle"
  "isWellFormed loggedTitle"
  "loggedTitle \<noteq> []"
  by (simp_all add: mockupTitle_def finalTitle_def or_else_def exampleResult_def initial_def
      loggedTitle_def trim_eval isLeadingSurrogate_def isTrailingSurrogate_def)

lemma retryState_eq:
  "retryState =
     initial\<lparr>errorMessage := Some invalidFile,
             resultInfo := Some (exampleUpload\<lparr>ok := False, error := Some invalidFile\<rparr>),
             loading := False, title := js ''Old''\<rparr>"
proof -
  have r: "requestExport oldDeclinedEnv = Resolved (exampleResult\<lparr>result_title := Some (js ''Old'')\<rparr>)"
    "status (exampleResult\<lparr>result_title := Some (js ''Old'')\<rparr>) = completed"
    "getCanvaUserToken oldDeclinedEnv = Resolved (js ''user-token'')"
    "getDesignToken oldDeclinedEnv = Resolved (js ''design-token'')"
    "fetch oldDeclinedEnv =
       Resolved \<lparr>http_status = 200,
         json = Resolved (Some (exampleUpload\<lparr>ok := False, error := Some invalidFile\<rparr>))\<rparr>"
    "json \<lparr>http_status = 200,
         json = Resolved (Some (exampleUpload\<lparr>ok := False, error := Some invalidFile\<rparr>))\<rparr> =
       Resolved (Some (exampleUpload\<lparr>ok := False, error := Some invalidFile\<rparr>))"
    "\<not> (resp_ok \<lparr>http_status = 200,
         json = Resolved (Some (exampleUpload\<lparr>ok := False, error := Some invalidFile\<rparr>))\<rparr> \<and>
        json_ok (Some (exampleUpload\<lparr>ok := False, error := Some invalidFile\<rparr>)))"
    by (simp_all add: oldDeclinedEnv_def declinedEnv_def exampleEnv_def exampleResult_def
        json_ok_def)
  have m: "or_else (json_error (Some (exampleUpload\<lparr>ok := False, error := Some invalidFile\<rparr>)))
             (js ''Falha ao enviar a arte.'') = invalidFile"
    by (simp add: json_error_def or_else_def invalidFile_def js_def)
  have t: "or_else (result_title (exampleResult\<lparr>result_title := Some (js ''Old'')\<rparr>))
             (js ''arte'') = js ''Old''"
    by (simp add: or_else_def js_def)
  show ?thesis
    unfolding retryState_def handle_declined(4) [OF r] m t
    by (simp add: initial_def)
qed

lemma encode_Old: "encodeURIComponent (js ''Old'') = Inr (js ''Old'')"
  by (simp add: encode_eval)

lemma encode_Logo: "encodeURIComponent (js ''Logo'') = Inr (js ''Logo'')"
  by (simp add: encode_eval)

lemma loggedTitle_trim: "trim loggedTitle = loggedTitle"
  by (simp add: loggedTitle_def trim_eval)

lemma recorded_title_nonempty: "or_else T (js ''arte'') \<noteq> []"
  by (rule or_else_nonempty) (rule fallbacks_nonempty)

lemma exampleEnv_preview: "requestOpenExternalUrl exampleEnv \<noteq> Inr Pending"
  by (simp add: exampleEnv_def)

lemma exampleResult_recorded: "or_else (result_title exampleResult) (js ''arte'') = loggedTitle"
  by (simp add: or_else_def exampleResult_def loggedTitle_def)

lemma accepted_facts:
  "requestExport hangingPreviewEnv = Resolved exampleResult"
  "getCanvaUserToken hangingPreviewEnv = Resolved (js ''user-token'')"
  "getDesignToken hangingPreviewEnv = Resolved (js ''design-token'')"
  "fetch hangingPreviewEnv = Resolved \<lparr>http_status = 200, json = Resolved (Some exampleUpload)\<rparr>"
  "requestExport surrogateEnv = Resolved (exampleResult\<lparr>result_title := Some [0x26, 0xD800]\<rparr>)"
  "status (exampleResult\<lparr>result_title := Some [0x26, 0xD800]\<rparr>) = completed"
  "getCanvaUserToken surrogateEnv = Resolved (js ''user-token'')"
  "getDesignToken surrogateEnv = Resolved (js ''design-token'')"
  "fetch surrogateEnv = Resolved \<lparr>http_status = 200, json = Resolved (Some exampleUpload)\<rparr>"
  by (simp_all add: hangingPreviewEnv_def surrogateEnv_def exampleEnv_def exampleResult_def)

lemma surrogate_title:
  "\<not> isWellFormed [0x26, 0xD800]"
  "or_else (Some [0x26, 0xD800]) (js ''arte'') = [0x26, 0xD800]"
  by (simp_all add: or_else_def isLeadingSurrogate_def isTrailingSurrogate_def)

lemma unhandledRejections_append:
  "unhandledRejections (xs @ ys) = unhandledRejections xs @ unhandledRejections ys"
  by (induction xs rule: unhandledRejections.induct) simp_all

lemma tryBlock_2_unhandled: "unhandledRejections (events (tryBlock_2 e t0 s1)) = []"
  by (simp add: tryBlock_2_def await_def Let_def split: promise.splits sum.splits)

lemma handle_2_unhandled: "unhandledRejections (events (handleExportAndSend_2 e st)) = []"
  by (simp add: handleExportAndSend_2_def Let_def tryBlock_2_unhandled split: completion.splits)

lemma handle_1_declined_unhandled:
  assumes "requestExport e = Resolved r" and "status r = completed"
    and "getCanvaUserToken e = Resolved ut" and "getDesignToken e = Resolved dt"
    and "fetch e = Resolved resp" and "json resp = Resolved j"
    and "\<not> (resp_ok resp \<and> json_ok j)"
  shows "unhandledRejections (events (handleExportAndSend_1 e st)) = []"
  by (simp add: handleExportAndSend_1_def tryBlock_1_reply [OF assms(1-6)] Let_def
      if_not_P [OF assms(7)])

lemma tryBlock_1_threw_unhandled:
  assumes "rejection e = Some x"
  shows "unhandledRejections (events (tryBlock_1 e t0 s1)) = []"
  using assms
  by (auto simp: tryBlock_1_def await_def rejection_def Let_def
      split: promise.splits sum.splits if_splits)

lemma handle_1_rejected_unhandled:
  assumes "rejection e = Some x"
  shows "unhandledRejections (events (handleExportAndSend_1 e st)) = []"
proof -
  have "outcome (tryBlock_1 e t0 s1) = Threw x" for t0 s1
    using assms by (simp add: tryBlock_threw)
  then show ?thesis
    by (simp add: handleExportAndSend_1_def Let_def unhandledRejections_append
        tryBlock_1_threw_unhandled [OF assms])
qed

lemma blockedPreviewEnv_reply:
  "requestExport blockedPreviewEnv = Resolved exampleResult"
  "status exampleResult = completed"
  "getCanvaUserToken blockedPreviewEnv = Resolved (js ''user-token'')"
  "getDesignToken blockedPreviewEnv = Resolved (js ''design-token'')"
  "fetch blockedPreviewEnv =
     Resolved \<lparr>http_status = 200, json = Resolved (Some exampleUpload)\<rparr>"
  "json \<lparr>http_status = 200, json = Resolved (Some exampleUpload)\<rparr> =
     Resolved (Some exampleUpload)"
  by (simp_all add: blockedPreviewEnv_def exampleEnv_def exampleResult_def)

lemma blockedPreviewEnv_opened:
  "openedUrls (events (handleExportAndSend_2 blockedPreviewEnv initial)) \<noteq> []"
proof -
  have "isWellFormed (finalTitle (title initial) (result_title exampleResult))"
    by (simp add: exampleResult_title)
  from mockupTemplate_roundtrip [OF this] show ?thesis
    by (auto simp: handle_2_accepted(3) [OF blockedPreviewEnv_reply exampleReply_accepted]
        buildMockupUrl_eq)
qed

lemma untitledEnv_reply:
  "requestExport untitledEnv = Resolved (exampleResult\<lparr>result_title := None\<rparr>)"
  "status (exampleResult\<lparr>result_title := None\<rparr>) = completed"
  "getCanvaUserToken untitledEnv = Resolved (js ''user-token'')"
  "getDesignToken untitledEnv = Resolved (js ''design-token'')"
  "fetch untitledEnv = Resolved \<lparr>http_status = 200, json = Resolved (Some exampleUpload)\<rparr>"
  "json \<lparr>http_status = 200, json = Resolved (Some exampleUpload)\<rparr> =
     Resolved (Some exampleUpload)"
  by (simp_all add: untitledEnv_def exampleEnv_def exampleResult_def)

lemma retry_titles:
  "isWellFormed (mockupTitle (title retryState) (result_title (exampleResult\<lparr>result_title := None\<rparr>)))"
  "isWellFormed (finalTitle (title retryState) (result_title (exampleResult\<lparr>result_title := None\<rparr>)))"
  by (simp_all add: retryState_eq mockupTitle_def finalTitle_def or_else_def js_def
      isLeadingSurrogate_def isTrailingSurrogate_def)

section \<open>Cancellation\<close>

text \<open>
  Claim C5. When the export result's status is not \<open>completed\<close>, the start transition
  returns with the session in the idle phase, \<open>errorMessage\<close> and \<open>resultInfo\<close> unset and
  \<open>loading\<close> cleared; nothing else of the state changes, no error is set and nothing is
  sent (the run has no events, so no upload). Both versions of the handler. The render
  after the run shows the idle phase: in the first version always, in the second version
  whenever the render before the run did not throw.
\<close>

theorem start_cancelled_returns_idle:
  assumes "requestExport e = Resolved r" and "status r \<noteq> completed"
  shows "(let r1 = handleExportAndSend_1 e st; r2 = handleExportAndSend_2 e st in
          outcome r1 = Returned \<and> outcome r2 = Returned \<and>
          final r1 = st\<lparr>errorMessage := None, resultInfo := None, loading := False\<rparr> \<and>
          final r2 = st\<lparr>errorMessage := None, resultInfo := None, loading := False\<rparr> \<and>
          phase_of (final r1) = Idle \<and> phase_of (final r2) = Idle \<and>
          errorMessage (final r1) = None \<and> errorMessage (final r2) = None \<and>
          resultInfo (final r1) = None \<and> resultInfo (final r2) = None \<and>
          events r1 = [] \<and> events r2 = [] \<and>
          render_1 (final r1) = Inr Idle \<and>
          (\<forall>p. render_2 st = Inr p \<longrightarrow> render_2 (final r2) = Inr Idle))"
proof -
  have f: "final (handleExportAndSend_1 e st) =
             st\<lparr>errorMessage := None, resultInfo := None, loading := False\<rparr>"
    "final (handleExportAndSend_2 e st) =
             st\<lparr>errorMessage := None, resultInfo := None, loading := False\<rparr>"
    "outcome (handleExportAndSend_1 e st) = Returned"
    "outcome (handleExportAndSend_2 e st) = Returned"
    "events (handleExportAndSend_1 e st) = []"
    "events (handleExportAndSend_2 e st) = []"
    by (simp_all add: handleExportAndSend_1_def handleExportAndSend_2_def
        tryBlock_1_cancelled [OF assms] tryBlock_2_cancelled [OF assms])
  have i: "phase_of (st\<lparr>errorMessage := None, resultInfo := None, loading := False\<rparr>) = Idle"
    by (simp add: phase_of_def)
  have r: "render_2 (st\<lparr>errorMessage := None, resultInfo := None, loading := False\<rparr>) = Inr Idle"
    if "render_2 st = Inr p" for p
    using render_2_title_cong [OF _ that,
        of "st\<lparr>errorMessage := None, resultInfo := None, loading := False\<rparr>"]
    by (simp add: i)
  have q: "render_1 (st\<lparr>errorMessage := None, resultInfo := None, loading := False\<rparr>) = Inr Idle"
    by (simp add: render_1_def i)
  show ?thesis
    unfolding Let_def f using i q r by (intro conjI allI impI) simp_all
qed

theorem start_cancelled_returns_idle_witness:
  "(let r1 = handleExportAndSend_1 cancelledEnv initial;
        r2 = handleExportAndSend_2 cancelledEnv initial in
    requestExport cancelledEnv = Resolved (exampleResult\<lparr>status := aborted\<rparr>) \<and>
    status (exampleResult\<lparr>status := aborted\<rparr>) \<noteq> completed \<and>
    phase_of (final r1) = Idle \<and> phase_of (final r2) = Idle \<and>
    events r1 = [] \<and> events r2 = [] \<and>
    render_2 initial = Inr Idle \<and> render_1 (final r1) = Inr Idle \<and>
    render_2 (final r2) = Inr Idle)"
  using start_cancelled_returns_idle [OF cancelledEnv_export, of initial, unfolded Let_def]
    cancelledEnv_export render_2_initial
  unfolding Let_def by blast

section \<open>The loading flag\<close>

text \<open>
  Claim C9. Every run of the start transition that ends (normally, by the return after a
  cancelled export, or through \<open>catch\<close>) has \<open>loading\<close> cleared: the session is not left in
  the in-flight phase, and no render after it shows that phase. Both versions of the
  handler.
\<close>

theorem start_clears_loading:
  "(outcome (handleExportAndSend_1 e st) \<noteq> Hung \<longrightarrow>
      \<not> loading (final (handleExportAndSend_1 e st)) \<and>
      phase_of (final (handleExportAndSend_1 e st)) \<noteq> InFlight \<and>
      render_1 (final (handleExportAndSend_1 e st)) \<noteq> Inr InFlight) \<and>
   (outcome (handleExportAndSend_2 e st) \<noteq> Hung \<longrightarrow>
      \<not> loading (final (handleExportAndSend_2 e st)) \<and>
      phase_of (final (handleExportAndSend_2 e st)) \<noteq> InFlight \<and>
      render_2 (final (handleExportAndSend_2 e st)) \<noteq> Inr InFlight)"
proof -
  have l: "outcome (handleExportAndSend_1 e st) \<noteq> Hung \<longrightarrow>
             \<not> loading (final (handleExportAndSend_1 e st))"
    "outcome (handleExportAndSend_2 e st) \<noteq> Hung \<longrightarrow>
             \<not> loading (final (handleExportAndSend_2 e st))"
    by (simp_all add: handleExportAndSend_1_def handleExportAndSend_2_def Let_def
        split: completion.splits)
  have p: "\<not> loading s \<Longrightarrow> phase_of s \<noteq> InFlight" for s
    by (simp add: phase_of_def)
  have q: "phase_of s \<noteq> InFlight \<Longrightarrow> render_2 s \<noteq> Inr InFlight" for s
    by (auto simp: render_2_def split: sum.splits)
  from l p q show ?thesis
    by (auto simp: render_1_def)
qed

theorem start_clears_loading_witness:
  "outcome (handleExportAndSend_1 cancelledEnv (initial\<lparr>loading := True\<rparr>)) \<noteq> Hung \<and>
   \<not> loading (final (handleExportAndSend_1 cancelledEnv (initial\<lparr>loading := True\<rparr>))) \<and>
   outcome (handleExportAndSend_2 cancelledEnv (initial\<lparr>loading := True\<rparr>)) \<noteq> Hung \<and>
   \<not> loading (final (handleExportAndSend_2 cancelledEnv (initial\<lparr>loading := True\<rparr>)))"
  using start_clears_loading [of cancelledEnv "initial\<lparr>loading := True\<rparr>"]
  by (simp add: handleExportAndSend_1_def handleExportAndSend_2_def
      tryBlock_1_cancelled [OF cancelledEnv_export] tryBlock_2_cancelled [OF cancelledEnv_export])

section \<open>Reset\<close>

text \<open>
  Claim C8. From the success phase or the failed phase, \<open>reset\<close> gives the idle phase with
  \<open>errorMessage\<close> and \<open>resultInfo\<close> unset and the empty title; the render of either version
  shows the idle phase.
\<close>

theorem reset_from_Success_or_Failed:
  assumes "phase_of s = Success \<or> phase_of s = Failed"
  shows "phase_of (reset s) = Idle \<and> errorMessage (reset s) = None \<and>
         resultInfo (reset s) = None \<and> title (reset s) = [] \<and>
         render_1 (reset s) = Inr Idle \<and> render_2 (reset s) = Inr Idle"
proof -
  have "phase_of (reset s) = Idle \<and> errorMessage (reset s) = None \<and>
         resultInfo (reset s) = None \<and> title (reset s) = []"
    using assms by (auto simp: reset_def phase_of_def split: if_splits)
  then show ?thesis
    by (simp add: render_1_def render_2_reset)
qed

theorem reset_from_Success_or_Failed_witness:
  "(let s = initial\<lparr>errorMessage := Some (js ''Falha ao enviar a arte.''),
                    title := js ''Logo''\<rparr> in
    phase_of s = Failed \<and> phase_of (reset s) = Idle \<and> errorMessage (reset s) = None \<and>
    resultInfo (reset s) = None \<and> title (reset s) = [])"
  using reset_from_Success_or_Failed
    [of "initial\<lparr>errorMessage := Some (js ''Falha ao enviar a arte.''), title := js ''Logo''\<rparr>"]
  by (simp add: Let_def phase_of_def initial_def js_def)

text \<open>
  Claim C10, as the code has it. \<open>reset\<close> is defined on every state and idempotent; it
  always unsets \<open>errorMessage\<close> and \<open>resultInfo\<close> and empties the title, and it leaves
  \<open>loading\<close> as it was: the phase after \<open>reset\<close>, as the render of either version shows
  it, is idle exactly when no request is in flight.
\<close>

theorem reset_idempotent_keeps_loading:
  "reset (reset s) = reset s \<and> errorMessage (reset s) = None \<and> resultInfo (reset s) = None \<and>
   title (reset s) = [] \<and> loading (reset s) = loading s \<and>
   phase_of (reset s) = (if loading s then InFlight else Idle) \<and>
   render_1 (reset s) = Inr (if loading s then InFlight else Idle) \<and>
   render_2 (reset s) = Inr (if loading s then InFlight else Idle)"
proof -
  have "phase_of (reset s) = (if loading s then InFlight else Idle)"
    by (simp add: reset_def phase_of_def)
  then show ?thesis
    by (simp add: render_1_def render_2_reset) (simp add: reset_def)
qed

theorem reset_idempotent_keeps_loading_witness:
  "phase_of (reset (initial\<lparr>resultInfo := Some exampleUpload\<rparr>)) = Idle \<and>
   reset (reset (initial\<lparr>resultInfo := Some exampleUpload\<rparr>)) =
     reset (initial\<lparr>resultInfo := Some exampleUpload\<rparr>)"
  using reset_idempotent_keeps_loading [of "initial\<lparr>resultInfo := Some exampleUpload\<rparr>"]
  by (simp add: initial_def)

text \<open>
  Claim C10 as stated fails in the in-flight phase: \<open>reset\<close> does not clear \<open>loading\<close>, so
  the phase after it is not idle.
\<close>

theorem reset_InFlight_counterexample:
  "phase_of (reset (initial\<lparr>loading := True\<rparr>)) \<noteq> Idle \<and>
   render_1 (reset (initial\<lparr>loading := True\<rparr>)) = Inr InFlight \<and>
   render_2 (reset (initial\<lparr>loading := True\<rparr>)) = Inr InFlight"
proof -
  have "phase_of (reset (initial\<lparr>loading := True\<rparr>)) = InFlight"
    by (simp add: reset_def phase_of_def initial_def)
  then show ?thesis
    by (simp add: render_1_def render_2_reset)
qed

section \<open>Recording the title and uploading\<close>

text \<open>
  Claim C4, as the code has it. After a completed export the session title is the
  result's title, or \<open>"arte"\<close> when that is absent or empty. When both tokens are
  obtained, exactly one upload request is made: its body carries the result's own title
  (not the recorded one: an absent title stays absent), the exported files and the design
  token, and the user token is the bearer credential. The title sent equals the recorded
  title whenever the result has a non-empty title.
\<close>

theorem start_records_title_and_uploads:
  assumes "requestExport e = Resolved r" and "status r = completed"
  shows "title (final (handleExportAndSend_1 e st)) = or_else (result_title r) (js ''arte'') \<and>
         title (final (handleExportAndSend_2 e st)) = or_else (result_title r) (js ''arte'') \<and>
         (\<forall>ut dt. getCanvaUserToken e = Resolved ut \<and> getDesignToken e = Resolved dt \<longrightarrow>
            fetchRequests (events (handleExportAndSend_1 e st)) = [exportRequest r ut dt] \<and>
            fetchRequests (events (handleExportAndSend_2 e st)) = [exportRequest r ut dt] \<and>
            body_title (body (exportRequest r ut dt)) = result_title r \<and>
            files (body (exportRequest r ut dt)) = exportBlobs r \<and>
            designToken (body (exportRequest r ut dt)) = dt \<and>
            authorization (exportRequest r ut dt) = js ''Bearer '' @ ut \<and>
            (\<forall>t. result_title r = Some t \<and> t \<noteq> [] \<longrightarrow>
               body_title (body (exportRequest r ut dt)) =
                 Some (title (final (handleExportAndSend_1 e st))) \<and>
               body_title (body (exportRequest r ut dt)) =
                 Some (title (final (handleExportAndSend_2 e st)))))"
proof -
  have t: "title (final (handleExportAndSend_1 e st)) = or_else (result_title r) (js ''arte'')"
          "title (final (handleExportAndSend_2 e st)) = or_else (result_title r) (js ''arte'')"
    by (simp_all add: handle_title tryBlock_title [OF assms])
  have f: "fetchRequests (events (handleExportAndSend_1 e st)) = [exportRequest r ut dt] \<and>
           fetchRequests (events (handleExportAndSend_2 e st)) = [exportRequest r ut dt]"
    if "getCanvaUserToken e = Resolved ut" "getDesignToken e = Resolved dt" for ut dt
    by (simp add: handle_fetchRequests tryBlock_fetchRequests [OF assms that])
  have b: "body_title (body (exportRequest r ut dt)) = result_title r \<and>
           files (body (exportRequest r ut dt)) = exportBlobs r \<and>
           designToken (body (exportRequest r ut dt)) = dt \<and>
           authorization (exportRequest r ut dt) = js ''Bearer '' @ ut" for ut dt
    by (simp add: exportRequest_def)
  have m: "body_title (body (exportRequest r ut dt)) =
             Some (title (final (handleExportAndSend_1 e st))) \<and>
           body_title (body (exportRequest r ut dt)) =
             Some (title (final (handleExportAndSend_2 e st)))"
    if "result_title r = Some t" "t \<noteq> []" for ut dt t
    using that by (simp add: t exportRequest_def or_else_def)
  from t f b m show ?thesis by blast
qed

theorem start_records_title_and_uploads_witness:
  "requestExport exampleEnv = Resolved exampleResult \<and> status exampleResult = completed \<and>
   title (final (handleExportAndSend_1 exampleEnv initial)) = js ''Logo Ver'' @ [0xE3] @ js ''o'' \<and>
   title (final (handleExportAndSend_2 exampleEnv initial)) = js ''Logo Ver'' @ [0xE3] @ js ''o'' \<and>
   fetchRequests (events (handleExportAndSend_2 exampleEnv initial)) =
     [exportRequest exampleResult (js ''user-token'') (js ''design-token'')]"
  using start_records_title_and_uploads [OF exampleEnv_reply(1,2), of initial]
    exampleEnv_reply(3,4)
  by (simp add: exampleEnv_reply(1,2) exampleResult_def or_else_def js_def)

text \<open>
  Claim C4 as stated fails for an export without a title: the session records \<open>"arte"\<close>,
  the upload request has no title.
\<close>

theorem upload_title_counterexample:
  "requestExport untitledEnv = Resolved (exampleResult\<lparr>result_title := None\<rparr>) \<and>
   status (exampleResult\<lparr>result_title := None\<rparr>) = completed \<and>
   title (final (handleExportAndSend_1 untitledEnv initial)) = js ''arte'' \<and>
   title (final (handleExportAndSend_2 untitledEnv initial)) = js ''arte'' \<and>
   map (\<lambda>req. body_title (body req)) (fetchRequests (events (handleExportAndSend_1 untitledEnv initial)))
     = [None] \<and>
   map (\<lambda>req. body_title (body req)) (fetchRequests (events (handleExportAndSend_2 untitledEnv initial)))
     = [None]"
proof -
  have r: "requestExport untitledEnv = Resolved (exampleResult\<lparr>result_title := None\<rparr>)"
    "status (exampleResult\<lparr>result_title := None\<rparr>) = completed"
    "getCanvaUserToken untitledEnv = Resolved (js ''user-token'')"
    "getDesignToken untitledEnv = Resolved (js ''design-token'')"
    by (simp_all add: untitledEnv_def exampleEnv_def exampleResult_def)
  show ?thesis
    by (simp add: r handle_title handle_fetchRequests tryBlock_title [OF r(1,2)]
        tryBlock_fetchRequests [OF r] or_else_def exportRequest_def)
qed

section \<open>An accepted upload\<close>

text \<open>
  Claim C1, as the code has it. When the parsed reply has \<open>ok = true\<close> and the HTTP
  status is a success status (\<open>resp.ok\<close>), the reply is recorded in \<open>resultInfo\<close> and the
  preview is opened once, with the URL built from the result's title, unless building
  the URL throws. The first version then ends normally and shows the success phase. The
  second version awaits the preview call: when that call settles (it does not stay
  pending) and the recorded title has no unpaired surrogate, the run ends normally and the
  render shows the success phase.
\<close>

theorem accepted_upload_enters_Success:
  assumes "requestExport e = Resolved r" and "status r = completed"
    and "getCanvaUserToken e = Resolved ut" and "getDesignToken e = Resolved dt"
    and "fetch e = Resolved resp" and "json resp = Resolved (Some u)"
    and "ok u" and "resp_ok resp"
  shows "outcome (handleExportAndSend_1 e st) = Normal \<and>
         resultInfo (final (handleExportAndSend_1 e st)) = Some u \<and>
         phase_of (final (handleExportAndSend_1 e st)) = Success \<and>
         render_1 (final (handleExportAndSend_1 e st)) = Inr Success \<and>
         openedUrls (events (handleExportAndSend_1 e st)) =
           (case mockupUrl (title st) (result_title r) of Inl _ \<Rightarrow> [] | Inr l \<Rightarrow> [l]) \<and>
         resultInfo (final (handleExportAndSend_2 e st)) = Some u \<and>
         (isWellFormed (or_else (result_title r) (js ''arte'')) \<and>
          requestOpenExternalUrl e \<noteq> Inr Pending \<longrightarrow>
            outcome (handleExportAndSend_2 e st) = Normal \<and>
            render_2 (final (handleExportAndSend_2 e st)) = Inr Success) \<and>
         openedUrls (events (handleExportAndSend_2 e st)) =
           (case buildMockupUrl (title st) (result_title r) of Inl _ \<Rightarrow> [] | Inr l \<Rightarrow> [l])"
proof -
  have j: "json_ok (Some u)"
    using assms(7) by (simp add: json_ok_def)
  note a1 = handle_1_accepted [OF assms(1-6) assms(8) j, of st]
  note a2 = handle_2_accepted [OF assms(1-6) assms(8) j, of st]
  have p1: "phase_of (final (handleExportAndSend_1 e st)) = Success"
    by (rule phase_of_Success [where u = u]) (simp_all add: a1(2) assms(7))
  have q1: "render_1 (final (handleExportAndSend_1 e st)) = Inr Success"
    by (simp add: render_1_def p1)
  have r1: "resultInfo (final (handleExportAndSend_1 e st)) = Some u"
    by (simp add: a1(2))
  have r2: "resultInfo (final (handleExportAndSend_2 e st)) = Some u"
    by (simp add: a2(2))
  have s2: "outcome (handleExportAndSend_2 e st) = Normal \<and>
            render_2 (final (handleExportAndSend_2 e st)) = Inr Success"
    if "isWellFormed (or_else (result_title r) (js ''arte'')) \<and>
        requestOpenExternalUrl e \<noteq> Inr Pending"
  proof -
    have o2: "outcome (handleExportAndSend_2 e st) = Normal"
      using that by (simp add: a2(1) split: sum.splits)
    have p2: "phase_of (final (handleExportAndSend_2 e st)) = Success"
      by (rule phase_of_Success [where u = u]) (simp_all add: a2(2) assms(7) o2)
    have "isWellFormed (title (final (handleExportAndSend_2 e st)))"
      using that by (simp add: a2(2))
    then show ?thesis
      by (simp add: o2 p2 render_2_wellFormed)
  qed
  from a1(1) r1 p1 q1 a1(3) r2 s2 a2(3) show ?thesis by blast
qed

theorem accepted_upload_enters_Success_witness:
  "ok exampleUpload \<and>
   resp_ok \<lparr>http_status = 200, json = Resolved (Some exampleUpload)\<rparr> \<and>
   isWellFormed (or_else (result_title exampleResult) (js ''arte'')) \<and>
   requestOpenExternalUrl exampleEnv \<noteq> Inr Pending \<and>
   phase_of (final (handleExportAndSend_1 exampleEnv initial)) = Success \<and>
   render_1 (final (handleExportAndSend_1 exampleEnv initial)) = Inr Success \<and>
   resultInfo (final (handleExportAndSend_1 exampleEnv initial)) = Some exampleUpload \<and>
   resultInfo (final (handleExportAndSend_2 exampleEnv initial)) = Some exampleUpload \<and>
   outcome (handleExportAndSend_2 exampleEnv initial) = Normal \<and>
   render_2 (final (handleExportAndSend_2 exampleEnv initial)) = Inr Success"
proof -
  have k: "ok exampleUpload"
    by (simp add: exampleUpload_def)
  from accepted_upload_enters_Success [OF exampleEnv_reply k exampleReply_accepted(1), of initial]
  show ?thesis
    by (simp add: k exampleReply_accepted(1) exampleEnv_preview exampleResult_recorded
        exampleResult_title(3))
qed

text \<open>
  Claim C1 as stated fails: a parsed reply with \<open>ok = true\<close> under HTTP status 500 ends in
  the failed phase, and no preview is opened. In the second version, with status 200 and
  \<open>ok = true\<close>, a preview call that never settles leaves the run in flight, and a recorded
  title with an unpaired surrogate makes the render throw.
\<close>

theorem parsed_ok_with_error_status_counterexample:
  "ok exampleUpload \<and>
   fetch rejectedStatusEnv =
     Resolved \<lparr>http_status = 500, json = Resolved (Some exampleUpload)\<rparr> \<and>
   phase_of (final (handleExportAndSend_1 rejectedStatusEnv initial)) = Failed \<and>
   phase_of (final (handleExportAndSend_2 rejectedStatusEnv initial)) = Failed \<and>
   render_1 (final (handleExportAndSend_1 rejectedStatusEnv initial)) = Inr Failed \<and>
   render_2 (final (handleExportAndSend_2 rejectedStatusEnv initial)) = Inr Failed \<and>
   openedUrls (events (handleExportAndSend_1 rejectedStatusEnv initial)) = [] \<and>
   openedUrls (events (handleExportAndSend_2 rejectedStatusEnv initial)) = [] \<and>
   fetch hangingPreviewEnv =
     Resolved \<lparr>http_status = 200, json = Resolved (Some exampleUpload)\<rparr> \<and>
   requestOpenExternalUrl hangingPreviewEnv = Inr Pending \<and>
   outcome (handleExportAndSend_2 hangingPreviewEnv initial) = Hung \<and>
   render_2 (final (handleExportAndSend_2 hangingPreviewEnv initial)) = Inr InFlight \<and>
   fetch surrogateEnv =
     Resolved \<lparr>http_status = 200, json = Resolved (Some exampleUpload)\<rparr> \<and>
   title (final (handleExportAndSend_2 surrogateEnv initial)) = [0x26, 0xD800] \<and>
   render_2 (final (handleExportAndSend_2 surrogateEnv initial)) = Inl URIError"
proof -
  have r: "requestExport rejectedStatusEnv = Resolved exampleResult"
    "status exampleResult = completed"
    "getCanvaUserToken rejectedStatusEnv = Resolved (js ''user-token'')"
    "getDesignToken rejectedStatusEnv = Resolved (js ''design-token'')"
    "fetch rejectedStatusEnv =
       Resolved \<lparr>http_status = 500, json = Resolved (Some exampleUpload)\<rparr>"
    "json \<lparr>http_status = 500, json = Resolved (Some exampleUpload)\<rparr> =
       Resolved (Some exampleUpload)"
    by (simp_all add: rejectedStatusEnv_def exampleEnv_def exampleResult_def)
  have n: "\<not> (resp_ok \<lparr>http_status = 500, json = Resolved (Some exampleUpload)\<rparr> \<and>
              json_ok (Some exampleUpload))"
    by (simp add: resp_ok_def)
  note d = handle_declined [OF r n, of initial]
  have m: "or_else (json_error (Some exampleUpload)) (js ''Falha ao enviar a arte.'') \<noteq> []"
    by (rule or_else_nonempty) (rule fallbacks_nonempty)
  have f1: "phase_of (final (handleExportAndSend_1 rejectedStatusEnv initial)) = Failed"
    by (rule phase_of_Failed [OF _ _ m]) (simp_all add: d(3))
  have f2: "phase_of (final (handleExportAndSend_2 rejectedStatusEnv initial)) = Failed"
    by (rule phase_of_Failed [OF _ _ m]) (simp_all add: d(4))
  have g1: "render_1 (final (handleExportAndSend_1 rejectedStatusEnv initial)) = Inr Failed"
    by (simp add: render_1_def f1)
  have "isWellFormed (title (final (handleExportAndSend_2 rejectedStatusEnv initial)))"
    by (simp add: d(4) exampleResult_recorded exampleResult_title(3))
  then have g2: "render_2 (final (handleExportAndSend_2 rejectedStatusEnv initial)) = Inr Failed"
    by (simp add: render_2_wellFormed f2)
  have k: "ok exampleUpload"
    by (simp add: exampleUpload_def)
  note h = handle_2_accepted [OF accepted_facts(1) exampleEnv_reply(2) accepted_facts(2,3,4)
      exampleEnv_reply(6) exampleReply_accepted, of initial]
  have hp: "requestOpenExternalUrl hangingPreviewEnv = Inr Pending"
    by (simp add: hangingPreviewEnv_def)
  have "isWellFormed (finalTitle (title initial) (result_title exampleResult))"
    by (simp add: exampleResult_title)
  from mockupTemplate_roundtrip [OF this]
  have ho: "outcome (handleExportAndSend_2 hangingPreviewEnv initial) = Hung"
    by (auto simp: h(1) hp buildMockupUrl_eq)
  have "isWellFormed (title (final (handleExportAndSend_2 hangingPreviewEnv initial)))"
    by (simp add: h(2) exampleResult_recorded exampleResult_title(3))
  then have hr: "render_2 (final (handleExportAndSend_2 hangingPreviewEnv initial)) = Inr InFlight"
    by (simp add: render_2_wellFormed) (simp add: h(2) ho phase_of_def)
  note s = handle_2_accepted [OF accepted_facts(5,6,7,8,9) exampleEnv_reply(6)
      exampleReply_accepted, of initial]
  have st: "title (final (handleExportAndSend_2 surrogateEnv initial)) = [0x26, 0xD800]"
    by (simp add: s(2) surrogate_title(2))
  have sr: "render_2 (final (handleExportAndSend_2 surrogateEnv initial)) = Inl URIError"
  proof (rule render_2_throws)
    show "\<not> isWellFormed (title (final (handleExportAndSend_2 surrogateEnv initial)))"
      unfolding st by (rule surrogate_title(1))
  qed
  from k r(5) f1 f2 g1 g2 d(5,6) accepted_facts(4) hp ho hr accepted_facts(9) st sr
  show ?thesis by blast
qed

section \<open>A failing preview\<close>

text \<open>
  Claim C7. After an accepted upload, when \<open>requestOpenExternalUrl\<close> throws or its
  promise rejects, the run ends normally with \<open>errorMessage\<close> unset and the success phase
  is shown: in the first version always; in the second version whenever the preview was
  in fact invoked in the run (the run has an opened URL), and more generally whenever the
  recorded title has no unpaired surrogate.
\<close>

theorem preview_failure_keeps_Success:
  assumes "requestExport e = Resolved r" and "status r = completed"
    and "getCanvaUserToken e = Resolved ut" and "getDesignToken e = Resolved dt"
    and "fetch e = Resolved resp" and "json resp = Resolved j"
    and "resp_ok resp" and "json_ok j"
    and "requestOpenExternalUrl e = Inl x \<or> requestOpenExternalUrl e = Inr (Rejected x)"
  shows "outcome (handleExportAndSend_1 e st) = Normal \<and>
         phase_of (final (handleExportAndSend_1 e st)) = Success \<and>
         render_1 (final (handleExportAndSend_1 e st)) = Inr Success \<and>
         errorMessage (final (handleExportAndSend_1 e st)) = None \<and>
         outcome (handleExportAndSend_2 e st) = Normal \<and>
         errorMessage (final (handleExportAndSend_2 e st)) = None \<and>
         (openedUrls (events (handleExportAndSend_2 e st)) \<noteq> [] \<longrightarrow>
            render_2 (final (handleExportAndSend_2 e st)) = Inr Success) \<and>
         (isWellFormed (or_else (result_title r) (js ''arte'')) \<longrightarrow>
            render_2 (final (handleExportAndSend_2 e st)) = Inr Success)"
proof -
  note a1 = handle_1_accepted [OF assms(1-8), of st]
  note a2 = handle_2_accepted [OF assms(1-8), of st]
  have o2: "outcome (handleExportAndSend_2 e st) = Normal"
    using assms(9) by (auto simp: a2(1) split: sum.splits)
  obtain u where u: "j = Some u" "ok u"
    using assms(8) by (auto simp: json_ok_def split: option.splits)
  have p1: "phase_of (final (handleExportAndSend_1 e st)) = Success"
    by (rule phase_of_Success [where u = u]) (simp_all add: a1(2) u)
  have q1: "render_1 (final (handleExportAndSend_1 e st)) = Inr Success"
    by (simp add: render_1_def p1)
  have p2: "phase_of (final (handleExportAndSend_2 e st)) = Success"
    by (rule phase_of_Success [where u = u]) (simp_all add: a2(2) u o2)
  have e1: "errorMessage (final (handleExportAndSend_1 e st)) = None"
    by (simp add: a1(2))
  have e2: "errorMessage (final (handleExportAndSend_2 e st)) = None"
    by (simp add: a2(2))
  have t2: "title (final (handleExportAndSend_2 e st)) = or_else (result_title r) (js ''arte'')"
    by (simp add: a2(2))
  have w2: "render_2 (final (handleExportAndSend_2 e st)) = Inr Success"
    if "isWellFormed (or_else (result_title r) (js ''arte''))"
    using that render_2_wellFormed [of "final (handleExportAndSend_2 e st)"]
    by (simp add: t2 p2)
  have i2: "render_2 (final (handleExportAndSend_2 e st)) = Inr Success"
    if "openedUrls (events (handleExportAndSend_2 e st)) \<noteq> []"
  proof -
    have "isWellFormed (finalTitle (title st) (result_title r))"
    proof (rule ccontr)
      assume "\<not> isWellFormed (finalTitle (title st) (result_title r))"
      from mockupTemplate_throws [OF this] that show False
        by (simp add: a2(3) buildMockupUrl_eq)
    qed
    then show ?thesis
      by (rule w2 [OF recorded_title_wellFormed])
  qed
  from a1(1) p1 q1 e1 o2 e2 i2 w2 show ?thesis by blast
qed

theorem preview_failure_keeps_Success_witness:
  "requestOpenExternalUrl blockedPreviewEnv = Inl boom \<and>
   openedUrls (events (handleExportAndSend_2 blockedPreviewEnv initial)) \<noteq> [] \<and>
   isWellFormed (or_else (result_title exampleResult) (js ''arte'')) \<and>
   phase_of (final (handleExportAndSend_1 blockedPreviewEnv initial)) = Success \<and>
   render_1 (final (handleExportAndSend_1 blockedPreviewEnv initial)) = Inr Success \<and>
   errorMessage (final (handleExportAndSend_1 blockedPreviewEnv initial)) = None \<and>
   outcome (handleExportAndSend_2 blockedPreviewEnv initial) = Normal \<and>
   render_2 (final (handleExportAndSend_2 blockedPreviewEnv initial)) = Inr Success \<and>
   errorMessage (final (handleExportAndSend_2 blockedPreviewEnv initial)) = None"
proof -
  have b: "requestOpenExternalUrl blockedPreviewEnv = Inl boom \<or>
           requestOpenExternalUrl blockedPreviewEnv = Inr (Rejected boom)"
    by (simp add: blockedPreviewEnv_def)
  have c: "requestOpenExternalUrl blockedPreviewEnv = Inl boom"
    by (simp add: blockedPreviewEnv_def)
  have w: "isWellFormed (or_else (result_title exampleResult) (js ''arte''))"
    by (simp add: exampleResult_recorded exampleResult_title(3))
  from preview_failure_keeps_Success [OF blockedPreviewEnv_reply exampleReply_accepted b,
      of initial] blockedPreviewEnv_opened c w
  show ?thesis by blast
qed

section \<open>Failures\<close>

text \<open>
  What holds of failures. A reply that is not accepted, and a rejection of an awaited
  call, end the run normally with a non-empty message, no preview and no unhandled
  rejection. The first version then shows the failed phase. The second version shows it
  when the title in the state has no unpaired surrogate, and its render throws otherwise.
\<close>

lemma failure_reports_message:
  "(\<forall>r ut dt resp j.
      requestExport e = Resolved r \<and> status r = completed \<and>
      getCanvaUserToken e = Resolved ut \<and> getDesignToken e = Resolved dt \<and>
      fetch e = Resolved resp \<and> json resp = Resolved j \<and> \<not> (resp_ok resp \<and> json_ok j) \<longrightarrow>
      outcome (handleExportAndSend_1 e st) = Normal \<and>
      outcome (handleExportAndSend_2 e st) = Normal \<and>
      phase_of (final (handleExportAndSend_1 e st)) = Failed \<and>
      render_1 (final (handleExportAndSend_1 e st)) = Inr Failed \<and>
      (isWellFormed (or_else (result_title r) (js ''arte'')) \<longrightarrow>
         render_2 (final (handleExportAndSend_2 e st)) = Inr Failed) \<and>
      (\<not> isWellFormed (or_else (result_title r) (js ''arte'')) \<longrightarrow>
         render_2 (final (handleExportAndSend_2 e st)) = Inl URIError) \<and>
      errorMessage (final (handleExportAndSend_1 e st)) =
        Some (or_else (json_error j) (js ''Falha ao enviar a arte.'')) \<and>
      errorMessage (final (handleExportAndSend_2 e st)) =
        Some (or_else (json_error j) (js ''Falha ao enviar a arte.'')) \<and>
      or_else (json_error j) (js ''Falha ao enviar a arte.'') \<noteq> [] \<and>
      (\<forall>m. json_error j = Some m \<and> m \<noteq> [] \<longrightarrow>
         or_else (json_error j) (js ''Falha ao enviar a arte.'') = m) \<and>
      (json_error j = None \<or> json_error j = Some [] \<longrightarrow>
         or_else (json_error j) (js ''Falha ao enviar a arte.'') =
           js ''Falha ao enviar a arte.'') \<and>
      unhandledRejections (events (handleExportAndSend_1 e st)) = [] \<and>
      unhandledRejections (events (handleExportAndSend_2 e st)) = []) \<and>
   (\<forall>x. rejection e = Some x \<longrightarrow>
      outcome (handleExportAndSend_1 e st) = Normal \<and>
      outcome (handleExportAndSend_2 e st) = Normal \<and>
      phase_of (final (handleExportAndSend_1 e st)) = Failed \<and>
      render_1 (final (handleExportAndSend_1 e st)) = Inr Failed \<and>
      (isWellFormed (title (final (handleExportAndSend_2 e st))) \<longrightarrow>
         render_2 (final (handleExportAndSend_2 e st)) = Inr Failed) \<and>
      (\<not> isWellFormed (title (final (handleExportAndSend_2 e st))) \<longrightarrow>
         render_2 (final (handleExportAndSend_2 e st)) = Inl URIError) \<and>
      errorMessage (final (handleExportAndSend_1 e st)) =
        Some (or_else (message x) (js ''Erro inesperado.'')) \<and>
      errorMessage (final (handleExportAndSend_2 e st)) =
        Some (or_else (message x) (js ''Erro inesperado.'')) \<and>
      or_else (message x) (js ''Erro inesperado.'') \<noteq> [] \<and>
      (\<forall>m. message x = Some m \<and> m \<noteq> [] \<longrightarrow>
         or_else (message x) (js ''Erro inesperado.'') = m) \<and>
      unhandledRejections (events (handleExportAndSend_1 e st)) = [] \<and>
      unhandledRejections (events (handleExportAndSend_2 e st)) = []) \<and>
   (\<forall>x. outcome (handleExportAndSend_1 e st) \<noteq> Threw x \<and>
        outcome (handleExportAndSend_2 e st) \<noteq> Threw x) \<and>
   (\<forall>x t0 s1. (outcome (tryBlock_1 e t0 s1) = Threw x) = (rejection e = Some x) \<and>
        (outcome (tryBlock_2 e t0 s1) = Threw x) = (rejection e = Some x))"
proof (intro conjI allI impI)
  fix r ut dt resp j
  assume h: "requestExport e = Resolved r \<and> status r = completed \<and>
      getCanvaUserToken e = Resolved ut \<and> getDesignToken e = Resolved dt \<and>
      fetch e = Resolved resp \<and> json resp = Resolved j \<and> \<not> (resp_ok resp \<and> json_ok j)"
  then have d: "requestExport e = Resolved r" "status r = completed"
    "getCanvaUserToken e = Resolved ut" "getDesignToken e = Resolved dt"
    "fetch e = Resolved resp" "json resp = Resolved j" "\<not> (resp_ok resp \<and> json_ok j)"
    by simp_all
  note dec = handle_declined [OF d, of st]
  have m: "or_else (json_error j) (js ''Falha ao enviar a arte.'') \<noteq> []"
    by (rule or_else_nonempty) (rule fallbacks_nonempty)
  have f2: "phase_of (final (handleExportAndSend_2 e st)) = Failed"
    by (rule phase_of_Failed [OF _ _ m]) (simp_all add: dec(4))
  have t2: "title (final (handleExportAndSend_2 e st)) = or_else (result_title r) (js ''arte'')"
    by (simp add: dec(4))
  show "outcome (handleExportAndSend_1 e st) = Normal"
    and "outcome (handleExportAndSend_2 e st) = Normal"
    by (rule dec)+
  show f1: "phase_of (final (handleExportAndSend_1 e st)) = Failed"
    by (rule phase_of_Failed [OF _ _ m]) (simp_all add: dec(3))
  show "render_1 (final (handleExportAndSend_1 e st)) = Inr Failed"
    by (simp add: render_1_def f1)
  show "render_2 (final (handleExportAndSend_2 e st)) = Inr Failed"
    if "isWellFormed (or_else (result_title r) (js ''arte''))"
    using that render_2_wellFormed [of "final (handleExportAndSend_2 e st)"]
    by (simp add: t2 f2)
  show "render_2 (final (handleExportAndSend_2 e st)) = Inl URIError"
    if "\<not> isWellFormed (or_else (result_title r) (js ''arte''))"
    using that render_2_throws [of "final (handleExportAndSend_2 e st)"]
    by (simp add: t2)
  show "errorMessage (final (handleExportAndSend_1 e st)) =
        Some (or_else (json_error j) (js ''Falha ao enviar a arte.''))"
    by (simp add: dec(3))
  show "errorMessage (final (handleExportAndSend_2 e st)) =
        Some (or_else (json_error j) (js ''Falha ao enviar a arte.''))"
    by (simp add: dec(4))
  show "or_else (json_error j) (js ''Falha ao enviar a arte.'') \<noteq> []"
    by (rule m)
  show "or_else (json_error j) (js ''Falha ao enviar a arte.'') = m"
    if "json_error j = Some m \<and> m \<noteq> []" for m
    using that by (simp add: or_else_def)
  show "or_else (json_error j) (js ''Falha ao enviar a arte.'') = js ''Falha ao enviar a arte.''"
    if "json_error j = None \<or> json_error j = Some []"
    using that by (auto simp: or_else_def)
  show "unhandledRejections (events (handleExportAndSend_1 e st)) = []"
    by (rule handle_1_declined_unhandled [OF d])
  show "unhandledRejections (events (handleExportAndSend_2 e st)) = []"
    by (rule handle_2_unhandled)
next
  fix x
  assume rej: "rejection e = Some x"
  note hr = handle_rejected [OF rej, of st]
  have m: "or_else (message x) (js ''Erro inesperado.'') \<noteq> []"
    by (rule or_else_nonempty) (rule fallbacks_nonempty)
  have f2: "phase_of (final (handleExportAndSend_2 e st)) = Failed"
    by (rule phase_of_Failed [OF hr(6) hr(4) m])
  show "outcome (handleExportAndSend_1 e st) = Normal"
    and "outcome (handleExportAndSend_2 e st) = Normal"
    by (rule hr)+
  show f1: "phase_of (final (handleExportAndSend_1 e st)) = Failed"
    by (rule phase_of_Failed [OF hr(5) hr(3) m])
  show "render_1 (final (handleExportAndSend_1 e st)) = Inr Failed"
    by (simp add: render_1_def f1)
  show "render_2 (final (handleExportAndSend_2 e st)) = Inr Failed"
    if "isWellFormed (title (final (handleExportAndSend_2 e st)))"
    using render_2_wellFormed [OF that] by (simp add: f2)
  show "render_2 (final (handleExportAndSend_2 e st)) = Inl URIError"
    if "\<not> isWellFormed (title (final (handleExportAndSend_2 e st)))"
    by (rule render_2_throws [OF that])
  show "errorMessage (final (handleExportAndSend_1 e st)) =
        Some (or_else (message x) (js ''Erro inesperado.''))"
    by (rule hr)
  show "errorMessage (final (handleExportAndSend_2 e st)) =
        Some (or_else (message x) (js ''Erro inesperado.''))"
    by (rule hr)
  show "or_else (message x) (js ''Erro inesperado.'') \<noteq> []"
    by (rule m)
  show "or_else (message x) (js ''Erro inesperado.'') = m"
    if "message x = Some m \<and> m \<noteq> []" for m
    using that by (simp add: or_else_def)
  show "unhandledRejections (events (handleExportAndSend_1 e st)) = []"
    by (rule handle_1_rejected_unhandled [OF rej])
  show "unhandledRejections (events (handleExportAndSend_2 e st)) = []"
    by (rule handle_2_unhandled)
next
  fix x
  show "outcome (handleExportAndSend_1 e st) \<noteq> Threw x"
    and "outcome (handleExportAndSend_2 e st) \<noteq> Threw x"
    by (rule handle_never_throws)+
next
  fix x t0 s1
  show "(outcome (tryBlock_1 e t0 s1) = Threw x) = (rejection e = Some x)"
    and "(outcome (tryBlock_2 e t0 s1) = Threw x) = (rejection e = Some x)"
    by (rule tryBlock_threw)+
qed

text \<open>
  Claim C6 fails in the second version. An export whose title has an unpaired surrogate
  is recorded by \<open>setTitle\<close>; when its upload is declined the handler sets the message and
  ends normally, but the render that follows evaluates \<open>buildMockupUrl()\<close> outside any
  \<open>try\<close> and throws \<open>URIError\<close>: the failed phase is not shown and the exception is not
  caught. The first version, at the same input, shows the failed phase with the message.
\<close>

theorem declined_upload_render_throws:
  "fetch surrogateDeclinedEnv =
     Resolved \<lparr>http_status = 200,
       json = Resolved (Some (exampleUpload\<lparr>ok := False, error := Some invalidFile\<rparr>))\<rparr> \<and>
   requestExport surrogateDeclinedEnv =
     Resolved (exampleResult\<lparr>result_title := Some [0x26, 0xD800]\<rparr>) \<and>
   outcome (handleExportAndSend_1 surrogateDeclinedEnv initial) = Normal \<and>
   errorMessage (final (handleExportAndSend_1 surrogateDeclinedEnv initial)) = Some invalidFile \<and>
   render_1 (final (handleExportAndSend_1 surrogateDeclinedEnv initial)) = Inr Failed \<and>
   outcome (handleExportAndSend_2 surrogateDeclinedEnv initial) = Normal \<and>
   errorMessage (final (handleExportAndSend_2 surrogateDeclinedEnv initial)) = Some invalidFile \<and>
   \<not> loading (final (handleExportAndSend_2 surrogateDeclinedEnv initial)) \<and>
   title (final (handleExportAndSend_2 surrogateDeclinedEnv initial)) = [0x26, 0xD800] \<and>
   render_2 (final (handleExportAndSend_2 surrogateDeclinedEnv initial)) = Inl URIError"
proof -
  have r: "requestExport surrogateDeclinedEnv =
       Resolved (exampleResult\<lparr>result_title := Some [0x26, 0xD800]\<rparr>)"
    "status (exampleResult\<lparr>result_title := Some [0x26, 0xD800]\<rparr>) = completed"
    "getCanvaUserToken surrogateDeclinedEnv = Resolved (js ''user-token'')"
    "getDesignToken surrogateDeclinedEnv = Resolved (js ''design-token'')"
    "fetch surrogateDeclinedEnv =
       Resolved \<lparr>http_status = 200,
         json = Resolved (Some (exampleUpload\<lparr>ok := False, error := Some invalidFile\<rparr>))\<rparr>"
    "json \<lparr>http_status = 200,
         json = Resolved (Some (exampleUpload\<lparr>ok := False, error := Some invalidFile\<rparr>))\<rparr> =
       Resolved (Some (exampleUpload\<lparr>ok := False, error := Some invalidFile\<rparr>))"
    "\<not> (resp_ok \<lparr>http_status = 200,
         json = Resolved (Some (exampleUpload\<lparr>ok := False, error := Some invalidFile\<rparr>))\<rparr> \<and>
        json_ok (Some (exampleUpload\<lparr>ok := False, error := Some invalidFile\<rparr>)))"
    by (simp_all add: surrogateDeclinedEnv_def declinedEnv_def exampleEnv_def exampleResult_def
        json_ok_def)
  note d = handle_declined [OF r, of initial]
  have m: "or_else (json_error (Some (exampleUpload\<lparr>ok := False, error := Some invalidFile\<rparr>)))
             (js ''Falha ao enviar a arte.'') = invalidFile" "invalidFile \<noteq> []"
    by (simp_all add: json_error_def or_else_def invalidFile_def js_def)
  have e1: "errorMessage (final (handleExportAndSend_1 surrogateDeclinedEnv initial)) =
              Some invalidFile"
    by (simp add: d(3) m(1))
  have e2: "errorMessage (final (handleExportAndSend_2 surrogateDeclinedEnv initial)) =
              Some invalidFile"
    by (simp add: d(4) m(1))
  have l: "\<not> loading (final (handleExportAndSend_1 surrogateDeclinedEnv initial))"
    "\<not> loading (final (handleExportAndSend_2 surrogateDeclinedEnv initial))"
    by (simp_all add: d(3,4))
  have p1: "phase_of (final (handleExportAndSend_1 surrogateDeclinedEnv initial)) = Failed"
    by (rule phase_of_Failed [OF l(1) e1 m(2)])
  have g1: "render_1 (final (handleExportAndSend_1 surrogateDeclinedEnv initial)) = Inr Failed"
    by (simp add: render_1_def p1)
  have t2: "title (final (handleExportAndSend_2 surrogateDeclinedEnv initial)) = [0x26, 0xD800]"
    by (simp add: d(4) surrogate_title(2))
  have g2: "render_2 (final (handleExportAndSend_2 surrogateDeclinedEnv initial)) = Inl URIError"
  proof (rule render_2_throws)
    show "\<not> isWellFormed (title (final (handleExportAndSend_2 surrogateDeclinedEnv initial)))"
      unfolding t2 by (rule surrogate_title(1))
  qed
  from r(5) r(1) d(1) e1 g1 d(2) e2 l(2) t2 g2 show ?thesis by blast
qed

section \<open>The preview URL carries the title\<close>

text \<open>
  Claim C2, as the code has it. For every title whose final form has no unpaired
  surrogate, the preview URL is built and decoding its \<open>arte\<close> parameter gives that final
  form back, whatever characters it contains; with an unpaired surrogate
  \<open>encodeURIComponent\<close> throws. The final form is, in the second version
  (\<open>buildMockupUrl\<close>), the trimmed title when that is not empty, and in the first version
  (\<open>mockupUrl\<close>) the title itself, untrimmed, when it is not empty; otherwise it is the
  session title the closure holds when that is not empty, and \<open>"arte"\<close> otherwise.
\<close>

theorem preview_url_arte_roundtrip:
  "(isWellFormed (finalTitle title0 T) \<longrightarrow>
      (\<exists>u. buildMockupUrl title0 T = Inr u \<and>
           decodedParam (js ''arte'') u = Some (finalTitle title0 T))) \<and>
   (\<not> isWellFormed (finalTitle title0 T) \<longrightarrow> buildMockupUrl title0 T = Inl URIError) \<and>
   (isWellFormed (mockupTitle title0 T) \<longrightarrow>
      (\<exists>u. mockupUrl title0 T = Inr u \<and>
           decodedParam (js ''arte'') u = Some (mockupTitle title0 T))) \<and>
   (\<not> isWellFormed (mockupTitle title0 T) \<longrightarrow> mockupUrl title0 T = Inl URIError) \<and>
   (\<forall>t. T = Some t \<and> trim t \<noteq> [] \<longrightarrow> finalTitle title0 T = trim t) \<and>
   (\<forall>t. T = Some t \<and> t \<noteq> [] \<longrightarrow> mockupTitle title0 T = t) \<and>
   (\<forall>t. (T = None \<or> T = Some t \<and> trim t = []) \<longrightarrow>
      finalTitle title0 T = (if title0 \<noteq> [] then title0 else js ''arte'')) \<and>
   (T = None \<or> T = Some [] \<longrightarrow>
      mockupTitle title0 T = (if title0 \<noteq> [] then title0 else js ''arte''))"
proof (intro conjI allI impI)
  show "\<exists>u. buildMockupUrl title0 T = Inr u \<and>
           decodedParam (js ''arte'') u = Some (finalTitle title0 T)"
    if "isWellFormed (finalTitle title0 T)"
    unfolding buildMockupUrl_eq by (rule mockupTemplate_roundtrip [OF that])
  show "buildMockupUrl title0 T = Inl URIError" if "\<not> isWellFormed (finalTitle title0 T)"
    unfolding buildMockupUrl_eq by (rule mockupTemplate_throws [OF that])
  show "\<exists>u. mockupUrl title0 T = Inr u \<and>
           decodedParam (js ''arte'') u = Some (mockupTitle title0 T)"
    if "isWellFormed (mockupTitle title0 T)"
    unfolding mockupUrl_eq by (rule mockupTemplate_roundtrip [OF that])
  show "mockupUrl title0 T = Inl URIError" if "\<not> isWellFormed (mockupTitle title0 T)"
    unfolding mockupUrl_eq by (rule mockupTemplate_throws [OF that])
  show "finalTitle title0 T = trim t" if "T = Some t \<and> trim t \<noteq> []" for t
    using that by (simp add: finalTitle_cases(1))
  show "mockupTitle title0 T = t" if "T = Some t \<and> t \<noteq> []" for t
    using that by (simp add: mockupTitle_cases(1))
  show "finalTitle title0 T = (if title0 \<noteq> [] then title0 else js ''arte'')"
    if "T = None \<or> T = Some t \<and> trim t = []" for t
    using that by (auto simp: finalTitle_def or_else_def)
  show "mockupTitle title0 T = (if title0 \<noteq> [] then title0 else js ''arte'')"
    if "T = None \<or> T = Some []"
    using that by (auto simp: mockupTitle_def or_else_def)
qed

theorem preview_url_arte_roundtrip_witness:
  "isWellFormed (finalTitle [] (Some exampleTitle)) \<and>
   (\<exists>u. buildMockupUrl [] (Some exampleTitle) = Inr u \<and>
        decodedParam (js ''arte'') u = Some (trim exampleTitle))"
  using preview_url_arte_roundtrip [of "[]" "Some exampleTitle"]
  by (simp add: exampleTitle_final)

text \<open>
  Claim C2 as stated fails in the first version, which does not trim: for the title
  \<open>" a b"\<close> the \<open>arte\<close> parameter decodes to \<open>" a b"\<close>, not to \<open>"a b"\<close>. It also fails
  for a title with an unpaired surrogate (here \<open>&\<close> followed by U+D800), where building
  the URL throws.
\<close>

theorem untrimmed_title_counterexample:
  "mockupUrl [] (Some (js '' a b'')) =
     Inr (js ''https://admin.levebrasa.com/internal/mockup?modelo=2%20Canecas%20Padr%C3%A3o&arte=%20a%20b&cor=Branca'') \<and>
   decodedParam (js ''arte'')
     (js ''https://admin.levebrasa.com/internal/mockup?modelo=2%20Canecas%20Padr%C3%A3o&arte=%20a%20b&cor=Branca'')
     = Some (js '' a b'') \<and>
   trim (js '' a b'') = js ''a b'' \<and> js '' a b'' \<noteq> js ''a b'' \<and>
   buildMockupUrl [] (Some [0x26, 0xD800]) = Inl URIError"
proof -
  have u: "js ''https://admin.levebrasa.com/internal/mockup?modelo=2%20Canecas%20Padr%C3%A3o&arte=%20a%20b&cor=Branca''
        = js ''https://admin.levebrasa.com/internal/mockup?modelo=2%20Canecas%20Padr%C3%A3o&arte=''
          @ js ''%20a%20b'' @ js ''&cor=Branca''"
    by (simp flip: js_append)
  have t: "mockupTitle [] (Some (js '' a b'')) = js '' a b''"
    by (simp add: mockupTitle_def or_else_def js_def)
  have e: "encodeURIComponent (js '' a b'') = Inr (js ''%20a%20b'')"
    by (simp add: encodeURIComponent_def encode_padded)
  have 1: "mockupUrl [] (Some (js '' a b'')) =
     Inr (js ''https://admin.levebrasa.com/internal/mockup?modelo=2%20Canecas%20Padr%C3%A3o&arte=%20a%20b&cor=Branca'')"
    unfolding u mockupUrl_eq t by (rule mockupTemplate_Inr [OF e])
  have q: "queryParam (js ''arte'')
     (js ''https://admin.levebrasa.com/internal/mockup?modelo=2%20Canecas%20Padr%C3%A3o&arte=%20a%20b&cor=Branca'')
     = Some (js ''%20a%20b'')"
    unfolding u by (rule queryParam_arte) (rule Encode_no_separator [OF encode_padded])+
  have 2: "decodedParam (js ''arte'')
     (js ''https://admin.levebrasa.com/internal/mockup?modelo=2%20Canecas%20Padr%C3%A3o&arte=%20a%20b&cor=Branca'')
     = Some (js '' a b'')"
    by (simp add: decodedParam_def q decodeURIComponent_def Decode_Encode [OF encode_padded])
  have 3: "trim (js '' a b'') = js ''a b''" "js '' a b'' \<noteq> js ''a b''"
    by (simp_all add: trim_eval)
  have "finalTitle [] (Some [0x26, 0xD800]) = [0x26, 0xD800]"
    by (simp add: finalTitle_def or_else_def trim_def isWhiteSpace_def Let_def)
  moreover have "\<not> isWellFormed [0x26, 0xD800]"
    by (simp add: isLeadingSurrogate_def isTrailingSurrogate_def)
  ultimately have 4: "buildMockupUrl [] (Some [0x26, 0xD800]) = Inl URIError"
    by (simp add: buildMockupUrl_eq mockupTemplate_throws)
  from 1 2 3 4 show ?thesis by blast
qed

section \<open>The preview is opened once\<close>

text \<open>
  Claim C3, as the code has it. After an accepted upload (success status and
  \<open>ok = true\<close>) the preview is opened at most once: exactly once, with the URL the
  builder returns, whenever the title to encode has no unpaired surrogate, and not at all
  otherwise. When the export result has a
  non-empty title, the \<open>arte\<close> parameter of the opened URL decodes to that title (to the
  trimmed title in the second version, when that is not empty), which is the title the
  run records (in the second version: when the title has no white space at its ends). When
  the result has no title and the session held none, the parameter decodes to \<open>"arte"\<close>,
  the title recorded.
\<close>

theorem preview_opened_once_with_title:
  assumes "requestExport e = Resolved r" and "status r = completed"
    and "getCanvaUserToken e = Resolved ut" and "getDesignToken e = Resolved dt"
    and "fetch e = Resolved resp" and "json resp = Resolved j"
    and "resp_ok resp" and "json_ok j"
  shows "(\<forall>t. result_title r = Some t \<and> t \<noteq> [] \<and> isWellFormed t \<longrightarrow>
            (\<exists>u. openedUrls (events (handleExportAndSend_1 e st)) = [u] \<and>
                 decodedParam (js ''arte'') u = Some t) \<and>
            title (final (handleExportAndSend_1 e st)) = t) \<and>
         (\<forall>t. result_title r = Some t \<and> trim t \<noteq> [] \<and> isWellFormed (trim t) \<longrightarrow>
            (\<exists>u. openedUrls (events (handleExportAndSend_2 e st)) = [u] \<and>
                 decodedParam (js ''arte'') u = Some (trim t)) \<and>
            (trim t = t \<longrightarrow> title (final (handleExportAndSend_2 e st)) = t)) \<and>
         ((result_title r = None \<or> result_title r = Some []) \<and> title st = [] \<longrightarrow>
            (\<exists>u. openedUrls (events (handleExportAndSend_1 e st)) = [u] \<and>
                 decodedParam (js ''arte'') u = Some (js ''arte'')) \<and>
            (\<exists>u. openedUrls (events (handleExportAndSend_2 e st)) = [u] \<and>
                 decodedParam (js ''arte'') u = Some (js ''arte'')) \<and>
            title (final (handleExportAndSend_1 e st)) = js ''arte'' \<and>
            title (final (handleExportAndSend_2 e st)) = js ''arte'') \<and>
         (isWellFormed (mockupTitle (title st) (result_title r)) \<longrightarrow>
            (\<exists>u. mockupUrl (title st) (result_title r) = Inr u \<and>
                 openedUrls (events (handleExportAndSend_1 e st)) = [u])) \<and>
         (isWellFormed (finalTitle (title st) (result_title r)) \<longrightarrow>
            (\<exists>u. buildMockupUrl (title st) (result_title r) = Inr u \<and>
                 openedUrls (events (handleExportAndSend_2 e st)) = [u])) \<and>
         (\<not> isWellFormed (mockupTitle (title st) (result_title r)) \<longrightarrow>
            openedUrls (events (handleExportAndSend_1 e st)) = []) \<and>
         (\<not> isWellFormed (finalTitle (title st) (result_title r)) \<longrightarrow>
            openedUrls (events (handleExportAndSend_2 e st)) = []) \<and>
         length (openedUrls (events (handleExportAndSend_1 e st))) \<le> 1 \<and>
         length (openedUrls (events (handleExportAndSend_2 e st))) \<le> 1"
proof -
  note a1 = handle_1_accepted [OF assms, of st]
  note a2 = handle_2_accepted [OF assms, of st]
  have t1: "title (final (handleExportAndSend_1 e st)) = or_else (result_title r) (js ''arte'')"
    by (simp add: a1(2))
  have t2: "title (final (handleExportAndSend_2 e st)) = or_else (result_title r) (js ''arte'')"
    by (simp add: a2(2))
  have o1: "\<exists>u. mockupUrl (title st) (result_title r) = Inr u \<and>
              openedUrls (events (handleExportAndSend_1 e st)) = [u] \<and>
              decodedParam (js ''arte'') u = Some x"
    if "mockupTitle (title st) (result_title r) = x" "isWellFormed x" for x
    using mockupTemplate_roundtrip [OF that(2)] by (auto simp: a1(3) mockupUrl_eq that(1))
  have o2: "\<exists>u. buildMockupUrl (title st) (result_title r) = Inr u \<and>
              openedUrls (events (handleExportAndSend_2 e st)) = [u] \<and>
              decodedParam (js ''arte'') u = Some x"
    if "finalTitle (title st) (result_title r) = x" "isWellFormed x" for x
    using mockupTemplate_roundtrip [OF that(2)] by (auto simp: a2(3) buildMockupUrl_eq that(1))
  have 1: "(\<exists>u. openedUrls (events (handleExportAndSend_1 e st)) = [u] \<and>
                 decodedParam (js ''arte'') u = Some t) \<and>
            title (final (handleExportAndSend_1 e st)) = t"
    if "result_title r = Some t \<and> t \<noteq> [] \<and> isWellFormed t" for t
  proof -
    have "mockupTitle (title st) (result_title r) = t"
      using that by (simp add: mockupTitle_def or_else_def)
    from o1 [OF this] that show ?thesis
      by (auto simp: t1 or_else_def)
  qed
  have 2: "(\<exists>u. openedUrls (events (handleExportAndSend_2 e st)) = [u] \<and>
                 decodedParam (js ''arte'') u = Some (trim t)) \<and>
            (trim t = t \<longrightarrow> title (final (handleExportAndSend_2 e st)) = t)"
    if "result_title r = Some t \<and> trim t \<noteq> [] \<and> isWellFormed (trim t)" for t
  proof -
    have "finalTitle (title st) (result_title r) = trim t"
      using that by (simp add: finalTitle_def or_else_def)
    from o2 [OF this] that show ?thesis
      by (auto simp: t2 or_else_def)
  qed
  have 3: "(\<exists>u. openedUrls (events (handleExportAndSend_1 e st)) = [u] \<and>
                 decodedParam (js ''arte'') u = Some (js ''arte'')) \<and>
            (\<exists>u. openedUrls (events (handleExportAndSend_2 e st)) = [u] \<and>
                 decodedParam (js ''arte'') u = Some (js ''arte'')) \<and>
            title (final (handleExportAndSend_1 e st)) = js ''arte'' \<and>
            title (final (handleExportAndSend_2 e st)) = js ''arte''"
    if "(result_title r = None \<or> result_title r = Some []) \<and> title st = []"
  proof -
    have m: "mockupTitle (title st) (result_title r) = js ''arte''"
      "finalTitle (title st) (result_title r) = js ''arte''"
      "or_else (result_title r) (js ''arte'') = js ''arte''"
      using that by (auto simp: mockupTitle_def finalTitle_def or_else_def trim_def)
    from o1 [OF m(1) wf_arte] o2 [OF m(2) wf_arte] show ?thesis
      by (auto simp: t1 t2 m(3))
  qed
  have 4: "\<exists>u. mockupUrl (title st) (result_title r) = Inr u \<and>
              openedUrls (events (handleExportAndSend_1 e st)) = [u]"
    if "isWellFormed (mockupTitle (title st) (result_title r))"
    using o1 [OF refl that] by blast
  have 5: "\<exists>u. buildMockupUrl (title st) (result_title r) = Inr u \<and>
              openedUrls (events (handleExportAndSend_2 e st)) = [u]"
    if "isWellFormed (finalTitle (title st) (result_title r))"
    using o2 [OF refl that] by blast
  have 6: "openedUrls (events (handleExportAndSend_1 e st)) = []"
    if "\<not> isWellFormed (mockupTitle (title st) (result_title r))"
    by (simp add: a1(3) mockupUrl_eq mockupTemplate_throws [OF that])
  have 7: "openedUrls (events (handleExportAndSend_2 e st)) = []"
    if "\<not> isWellFormed (finalTitle (title st) (result_title r))"
    by (simp add: a2(3) buildMockupUrl_eq mockupTemplate_throws [OF that])
  have 8: "length (openedUrls (events (handleExportAndSend_1 e st))) \<le> 1"
    "length (openedUrls (events (handleExportAndSend_2 e st))) \<le> 1"
    by (simp_all add: a1(3) a2(3) split: sum.splits)
  from 1 2 3 4 5 6 7 8 show ?thesis by blast
qed

theorem preview_opened_once_with_title_witness:
  "result_title exampleResult = Some loggedTitle \<and> isWellFormed loggedTitle \<and>
   (\<exists>u. openedUrls (events (handleExportAndSend_1 exampleEnv initial)) = [u] \<and>
        decodedParam (js ''arte'') u = Some loggedTitle) \<and>
   (\<exists>u. openedUrls (events (handleExportAndSend_2 exampleEnv initial)) = [u] \<and>
        decodedParam (js ''arte'') u = Some loggedTitle) \<and>
   title (final (handleExportAndSend_1 exampleEnv initial)) = loggedTitle \<and>
   title (final (handleExportAndSend_2 exampleEnv initial)) = loggedTitle \<and>
   (\<exists>u. openedUrls (events (handleExportAndSend_1 untitledEnv retryState)) = [u]) \<and>
   (\<exists>u. openedUrls (events (handleExportAndSend_2 untitledEnv retryState)) = [u])"
proof -
  have t: "result_title exampleResult = Some loggedTitle"
    by (simp add: exampleResult_def loggedTitle_def)
  note p = preview_opened_once_with_title [OF exampleEnv_reply exampleReply_accepted, of initial]
  note p1 = p [THEN conjunct1, rule_format, of loggedTitle]
  note p2 = p [THEN conjunct2, THEN conjunct1, rule_format, of loggedTitle]
  note q = preview_opened_once_with_title [OF untitledEnv_reply exampleReply_accepted,
      of retryState]
  note q1 = q [THEN conjunct2, THEN conjunct2, THEN conjunct2, THEN conjunct1, rule_format,
      OF retry_titles(1)]
  note q2 = q [THEN conjunct2, THEN conjunct2, THEN conjunct2, THEN conjunct2, THEN conjunct1,
      rule_format, OF retry_titles(2)]
  have a: "(\<exists>u. openedUrls (events (handleExportAndSend_1 untitledEnv retryState)) = [u])"
    "(\<exists>u. openedUrls (events (handleExportAndSend_2 untitledEnv retryState)) = [u])"
    using q1 q2 by blast+
  from p1 p2 a show ?thesis
    by (simp add: t exampleResult_title(3,4) loggedTitle_trim)
qed

text \<open>
  Claim C3 as stated fails on a retry: after a failed run that recorded the title
  \<open>Old\<close> (both versions then show the failed phase with its retry button), an export
  without a title records \<open>"arte"\<close> and the preview is opened with \<open>arte=Old\<close>. In the
  second version it also fails for a title with white space at an end: \<open>" Logo"\<close> is
  recorded, \<open>arte=Logo\<close> is opened.
\<close>

theorem stale_title_counterexample:
  "phase_of retryState = Failed \<and> render_1 retryState = Inr Failed \<and>
   render_2 retryState = Inr Failed \<and> title retryState = js ''Old'' \<and>
   openedUrls (events (handleExportAndSend_1 untitledEnv retryState)) =
     [js ''https://admin.levebrasa.com/internal/mockup?modelo=2%20Canecas%20Padr%C3%A3o&arte=Old&cor=Branca''] \<and>
   openedUrls (events (handleExportAndSend_2 untitledEnv retryState)) =
     [js ''https://admin.levebrasa.com/internal/mockup?modelo=2%20Canecas%20Padr%C3%A3o&arte=Old&cor=Branca''] \<and>
   decodedParam (js ''arte'')
     (js ''https://admin.levebrasa.com/internal/mockup?modelo=2%20Canecas%20Padr%C3%A3o&arte=Old&cor=Branca'')
     = Some (js ''Old'') \<and>
   title (final (handleExportAndSend_1 untitledEnv retryState)) = js ''arte'' \<and>
   title (final (handleExportAndSend_2 untitledEnv retryState)) = js ''arte'' \<and>
   js ''Old'' \<noteq> js ''arte'' \<and>
   openedUrls (events (handleExportAndSend_2 paddedEnv initial)) =
     [js ''https://admin.levebrasa.com/internal/mockup?modelo=2%20Canecas%20Padr%C3%A3o&arte=Logo&cor=Branca''] \<and>
   decodedParam (js ''arte'')
     (js ''https://admin.levebrasa.com/internal/mockup?modelo=2%20Canecas%20Padr%C3%A3o&arte=Logo&cor=Branca'')
     = Some (js ''Logo'') \<and>
   title (final (handleExportAndSend_2 paddedEnv initial)) = js '' Logo'' \<and>
   js ''Logo'' \<noteq> js '' Logo''"
proof -
  have u: "js ''https://admin.levebrasa.com/internal/mockup?modelo=2%20Canecas%20Padr%C3%A3o&arte=Old&cor=Branca''
        = js ''https://admin.levebrasa.com/internal/mockup?modelo=2%20Canecas%20Padr%C3%A3o&arte=''
          @ js ''Old'' @ js ''&cor=Branca''"
    by (simp flip: js_append)
  have v: "js ''https://admin.levebrasa.com/internal/mockup?modelo=2%20Canecas%20Padr%C3%A3o&arte=Logo&cor=Branca''
        = js ''https://admin.levebrasa.com/internal/mockup?modelo=2%20Canecas%20Padr%C3%A3o&arte=''
          @ js ''Logo'' @ js ''&cor=Branca''"
    by (simp flip: js_append)
  have r: "requestExport untitledEnv = Resolved (exampleResult\<lparr>result_title := None\<rparr>)"
    "status (exampleResult\<lparr>result_title := None\<rparr>) = completed"
    "getCanvaUserToken untitledEnv = Resolved (js ''user-token'')"
    "getDesignToken untitledEnv = Resolved (js ''design-token'')"
    "fetch untitledEnv =
       Resolved \<lparr>http_status = 200, json = Resolved (Some exampleUpload)\<rparr>"
    "json \<lparr>http_status = 200, json = Resolved (Some exampleUpload)\<rparr> =
       Resolved (Some exampleUpload)"
    by (simp_all add: untitledEnv_def exampleEnv_def exampleResult_def)
  have p: "requestExport paddedEnv = Resolved (exampleResult\<lparr>result_title := Some (js '' Logo'')\<rparr>)"
    "status (exampleResult\<lparr>result_title := Some (js '' Logo'')\<rparr>) = completed"
    "getCanvaUserToken paddedEnv = Resolved (js ''user-token'')"
    "getDesignToken paddedEnv = Resolved (js ''design-token'')"
    "fetch paddedEnv =
       Resolved \<lparr>http_status = 200, json = Resolved (Some exampleUpload)\<rparr>"
    "json \<lparr>http_status = 200, json = Resolved (Some exampleUpload)\<rparr> =
       Resolved (Some exampleUpload)"
    by (simp_all add: paddedEnv_def exampleEnv_def exampleResult_def)
  note a1 = handle_1_accepted [OF r exampleReply_accepted, of retryState]
  note a2 = handle_2_accepted [OF r exampleReply_accepted, of retryState]
  note a3 = handle_2_accepted [OF p exampleReply_accepted, of initial]
  have ts: "title retryState = js ''Old''"
    by (simp add: retryState_eq)
  have ph: "phase_of retryState = Failed"
    by (rule phase_of_Failed [where m = invalidFile])
      (simp_all add: retryState_eq invalidFile_def js_def)
  have m1: "mockupTitle (js ''Old'') (result_title (exampleResult\<lparr>result_title := None\<rparr>)) = js ''Old''"
    "finalTitle (js ''Old'') (result_title (exampleResult\<lparr>result_title := None\<rparr>)) = js ''Old''"
    by (simp_all add: mockupTitle_def finalTitle_def or_else_def js_def)
  have m3: "finalTitle (title initial)
              (result_title (exampleResult\<lparr>result_title := Some (js '' Logo'')\<rparr>)) = js ''Logo''"
    by (simp add: finalTitle_def or_else_def trim_eval)
  have o1: "openedUrls (events (handleExportAndSend_1 untitledEnv retryState)) =
     [js ''https://admin.levebrasa.com/internal/mockup?modelo=2%20Canecas%20Padr%C3%A3o&arte=Old&cor=Branca'']"
    unfolding a1(3) ts mockupUrl_eq m1 u by (simp add: mockupTemplate_Inr [OF encode_Old])
  have o2: "openedUrls (events (handleExportAndSend_2 untitledEnv retryState)) =
     [js ''https://admin.levebrasa.com/internal/mockup?modelo=2%20Canecas%20Padr%C3%A3o&arte=Old&cor=Branca'']"
    unfolding a2(3) ts buildMockupUrl_eq m1 u by (simp add: mockupTemplate_Inr [OF encode_Old])
  have o3: "openedUrls (events (handleExportAndSend_2 paddedEnv initial)) =
     [js ''https://admin.levebrasa.com/internal/mockup?modelo=2%20Canecas%20Padr%C3%A3o&arte=Logo&cor=Branca'']"
    unfolding a3(3) buildMockupUrl_eq m3 v by (simp add: mockupTemplate_Inr [OF encode_Logo])
  have eo: "Encode (js ''Old'') = Inr (js ''Old'')" "Encode (js ''Logo'') = Inr (js ''Logo'')"
    using encode_Old encode_Logo by (simp_all add: encodeURIComponent_def)
  have d1: "decodedParam (js ''arte'')
     (js ''https://admin.levebrasa.com/internal/mockup?modelo=2%20Canecas%20Padr%C3%A3o&arte=Old&cor=Branca'')
     = Some (js ''Old'')"
    unfolding u decodedParam_def
    by (simp add: queryParam_arte [OF Encode_no_separator(1,2) [OF eo(1)]]
        decodeURIComponent_def Decode_Encode [OF eo(1)])
  have d3: "decodedParam (js ''arte'')
     (js ''https://admin.levebrasa.com/internal/mockup?modelo=2%20Canecas%20Padr%C3%A3o&arte=Logo&cor=Branca'')
     = Some (js ''Logo'')"
    unfolding v decodedParam_def
    by (simp add: queryParam_arte [OF Encode_no_separator(1,2) [OF eo(2)]]
        decodeURIComponent_def Decode_Encode [OF eo(2)])
  have t1: "title (final (handleExportAndSend_1 untitledEnv retryState)) = js ''arte''"
    "title (final (handleExportAndSend_2 untitledEnv retryState)) = js ''arte''"
    by (simp_all add: a1(2) a2(2) or_else_def)
  have t3: "title (final (handleExportAndSend_2 paddedEnv initial)) = js '' Logo''"
    by (simp add: a3(2) or_else_def js_def)
  have n: "js ''Old'' \<noteq> js ''arte''" "js ''Logo'' \<noteq> js '' Logo''"
    by (simp_all add: js_def)
  have rn: "render_1 retryState = Inr Failed" "render_2 retryState = Inr Failed"
    using render_2_wellFormed [of retryState]
    by (simp_all add: render_1_def ph ts js_def isLeadingSurrogate_def isTrailingSurrogate_def)
  from ph rn ts o1 o2 d1 t1 n o3 d3 t3 show ?thesis by blast
qed

end
